theory Spec2Isabelle
  imports Complex_Main "HOL-Library.Word" "HOL-Library.AList"
begin

section \<open>JavaScript values\<close>

text \<open>
  The sanitizers of \<^verbatim>\<open>validate.js\<close> take untrusted values of any type. The values
  modelled here are the ones that storage, the import file and the module itself can
  produce: \<^verbatim>\<open>undefined\<close>, \<^verbatim>\<open>null\<close>, booleans, numbers, strings, arrays and
  objects. An object carries its own enumerable properties in enumeration order and
  whether it inherits from \<^verbatim>\<open>Object.prototype\<close> or was made by
  \<^verbatim>\<open>Object.create(null)\<close>. Functions, symbols, accessors and objects with any other
  prototype are outside the model.

  A number is \<^verbatim>\<open>NaN\<close>, an infinity or a finite double, written as the rational it
  denotes (the two zeros are one value, which no code modelled here tells apart). A
  string is the list of its code units, for code units below 256.
\<close>

datatype error = TypeError

datatype jsnum = NaN | PosInf | NegInf | Fin rat

datatype proto = ObjectProto | NullProto

datatype jsval =
    JUndefined
  | JNull
  | JBool bool
  | JNum jsnum
  | JStr string
  | JArr "jsval list"
  | JObj proto "(string \<times> jsval) list"

subsection \<open>Characters and strings\<close>

definition code :: "char \<Rightarrow> nat" where
  "code c = of_char c"

definition is_digit :: "char \<Rightarrow> bool" where
  "is_digit c = (48 \<le> code c \<and> code c \<le> 57)"

definition is_lower :: "char \<Rightarrow> bool" where
  "is_lower c = (97 \<le> code c \<and> code c \<le> 122)"

definition is_upper :: "char \<Rightarrow> bool" where
  "is_upper c = (65 \<le> code c \<and> code c \<le> 90)"

definition is_alpha :: "char \<Rightarrow> bool" where
  "is_alpha c = (is_lower c \<or> is_upper c)"

definition is_hex_digit :: "char \<Rightarrow> bool" where
  "is_hex_digit c = (is_digit c \<or> (97 \<le> code c \<and> code c \<le> 102) \<or> (65 \<le> code c \<and> code c \<le> 70))"

text \<open>White space and line terminators that \<^verbatim>\<open>trim\<close> and \<^verbatim>\<open>Number\<close> strip:
  TAB, LF, VT, FF, CR, SP and NBSP.\<close>

definition is_whitespace :: "char \<Rightarrow> bool" where
  "is_whitespace c = (code c = 9 \<or> code c = 10 \<or> code c = 11 \<or> code c = 12 \<or> code c = 13
     \<or> code c = 32 \<or> code c = 160)"

definition toLowerCase_char :: "char \<Rightarrow> char" where
  "toLowerCase_char c =
     (if is_upper c \<or> (192 \<le> code c \<and> code c \<le> 222 \<and> code c \<noteq> 215)
      then char_of (code c + 32) else c)"

definition toLowerCase :: "string \<Rightarrow> string" where
  "toLowerCase s = map toLowerCase_char s"

definition trim :: "string \<Rightarrow> string" where
  "trim s = rev (dropWhile is_whitespace (rev (dropWhile is_whitespace s)))"

text \<open>\<^verbatim>\<open>s.split(c)\<close> for a one-character separator: always at least one piece.\<close>

fun split_on :: "char \<Rightarrow> string \<Rightarrow> string list" where
  "split_on sep [] = [[]]"
| "split_on sep (c # cs) =
     (if c = sep then [] # split_on sep cs
      else (case split_on sep cs of p # ps \<Rightarrow> (c # p) # ps | [] \<Rightarrow> [[c]]))"

text \<open>\<^verbatim>\<open>s.split(/\r?\n/)\<close>: a line feed, with the carriage return before it when there
  is one, separates two pieces.\<close>

fun split_lines :: "string \<Rightarrow> string list" where
  "split_lines [] = [[]]"
| "split_lines (c # cs) =
     (if code c = 10 then [] # split_lines cs
      else if code c = 13 \<and> (case cs of d # ds \<Rightarrow> code d = 10 | [] \<Rightarrow> False)
        then [] # split_lines (tl cs)
      else (case split_lines cs of p # ps \<Rightarrow> (c # p) # ps | [] \<Rightarrow> [[c]]))"

text \<open>The decimal numeral of an array index, as property keys write it.\<close>

fun index_key :: "nat \<Rightarrow> string" where
  "index_key n =
     (if n < 10 then [char_of (48 + n)]
      else index_key (n div 10) @ [char_of (48 + n mod 10)])"

declare index_key.simps [simp del]

subsection \<open>Numbers\<close>

text \<open>
  A finite number is an IEEE 754 double: an integer multiple \<open>m * 2^q\<close> of
  \<open>2^-1074\<close> with \<open>m < 2^53\<close>. \<^verbatim>\<open>Number\<close> on a string, the number literals of the
  source and the arithmetic operators give the double nearest to the exact value,
  the one with the even \<open>m\<close> when two are equally near, and an infinity when that
  rounding reaches \<open>2^1024\<close>. Measured in units of \<open>2^-1074\<close>, the doubles next to a
  value \<open>R\<close> are 1 apart when \<open>R < 2^53\<close> and \<open>2^(n - 53)\<close> apart when the integer
  part of \<open>R\<close> has \<open>n > 53\<close> binary digits.
\<close>

fun bit_length :: "nat \<Rightarrow> nat" where
  "bit_length n = (if n = 0 then 0 else Suc (bit_length (n div 2)))"

declare bit_length.simps [simp del]

definition round_half_even :: "rat \<Rightarrow> int" where
  "round_half_even x =
     (let f = \<lfloor>x\<rfloor>; d = x - of_int f
      in if d < 1 / 2 then f
         else if 1 / 2 < d then f + 1
         else if even f then f else f + 1)"

text \<open>The double nearest to \<open>r \<ge> 0\<close>, or \<open>2^1024\<close> when \<open>r\<close> rounds beyond the largest
  double.\<close>

definition nearest_double :: "rat \<Rightarrow> rat" where
  "nearest_double r =
     (let R = r * 2 ^ 1074;
          q = bit_length (nat \<lfloor>R\<rfloor>) - 53;
          m = round_half_even (R / 2 ^ q)
      in of_int m * 2 ^ q / 2 ^ 1074)"

definition round_double :: "rat \<Rightarrow> jsnum" where
  "round_double r =
     (let x = nearest_double \<bar>r\<bar>
      in if 2 ^ 1024 \<le> x then (if r < 0 then NegInf else PosInf)
         else Fin (if r < 0 then - x else x))"

text \<open>The value of a finite number literal of the source, such as \<^verbatim>\<open>2.2\<close>.\<close>

definition number_literal :: "rat \<Rightarrow> rat" where
  "number_literal r = (case round_double r of Fin x \<Rightarrow> x | _ \<Rightarrow> 0)"

subsection \<open>Numbers from strings\<close>

text \<open>
  \<^verbatim>\<open>Number(s)\<close> on a string follows the StringNumericLiteral grammar: white space is
  stripped, the empty string is 0, then either a radix literal (\<^verbatim>\<open>0x\<close>, \<^verbatim>\<open>0o\<close>,
  \<^verbatim>\<open>0b\<close>, unsigned) or an optionally signed decimal literal or \<^verbatim>\<open>Infinity\<close>;
  anything else is \<^verbatim>\<open>NaN\<close>. The value of a literal is rounded to the nearest
  double.
\<close>

definition digit_value :: "char \<Rightarrow> nat" where
  "digit_value c =
     (if is_digit c then code c - 48
      else if is_lower c then code c - 87
      else code c - 55)"

definition digits_value :: "nat \<Rightarrow> string \<Rightarrow> nat" where
  "digits_value base s = foldl (\<lambda>acc c. acc * base + digit_value c) 0 s"

definition all_digits :: "string \<Rightarrow> bool" where
  "all_digits s = list_all is_digit s"

definition pow10 :: "int \<Rightarrow> rat" where
  "pow10 e = (if 0 \<le> e then 10 ^ nat e else 1 / 10 ^ nat (- e))"

text \<open>The exponent part after \<^verbatim>\<open>e\<close> or \<^verbatim>\<open>E\<close>: an optional sign and at least one
  digit.\<close>

definition exponent_value :: "string \<Rightarrow> int option" where
  "exponent_value s =
     (case s of
        [] \<Rightarrow> None
      | c # cs \<Rightarrow>
          if c = CHR ''+'' then (if cs \<noteq> [] \<and> all_digits cs then Some (int (digits_value 10 cs)) else None)
          else if c = CHR ''-'' then (if cs \<noteq> [] \<and> all_digits cs then Some (- int (digits_value 10 cs)) else None)
          else if all_digits s then Some (int (digits_value 10 s)) else None)"

text \<open>The mantissa: digits, with at most one point, and a digit on one side of it at
  least. The result is the digits read as one numeral and the number of digits after
  the point.\<close>

definition mantissa_value :: "string \<Rightarrow> (nat \<times> nat) option" where
  "mantissa_value s =
     (let ip = takeWhile (\<lambda>c. c \<noteq> CHR ''.'') s;
          rest = dropWhile (\<lambda>c. c \<noteq> CHR ''.'') s
      in if rest = [] then
           (if ip \<noteq> [] \<and> all_digits ip then Some (digits_value 10 ip, 0) else None)
         else
           (let fp = tl rest
            in if all_digits ip \<and> all_digits fp \<and> (ip \<noteq> [] \<or> fp \<noteq> [])
               then Some (digits_value 10 (ip @ fp), length fp) else None))"

definition is_exponent_indicator :: "char \<Rightarrow> bool" where
  "is_exponent_indicator c = (c = CHR ''e'' \<or> c = CHR ''E'')"

definition unsigned_decimal :: "string \<Rightarrow> rat option" where
  "unsigned_decimal s =
     (let m = takeWhile (\<lambda>c. \<not> is_exponent_indicator c) s;
          rest = dropWhile (\<lambda>c. \<not> is_exponent_indicator c) s
      in case mantissa_value m of
           None \<Rightarrow> None
         | Some (digits, fd) \<Rightarrow>
             if rest = [] then Some (of_nat digits * pow10 (- int fd))
             else (case exponent_value (tl rest) of
                     None \<Rightarrow> None
                   | Some e \<Rightarrow> Some (of_nat digits * pow10 (e - int fd))))"

definition signed_decimal :: "string \<Rightarrow> jsnum" where
  "signed_decimal s =
     (let neg = (case s of c # _ \<Rightarrow> c = CHR ''-'' | [] \<Rightarrow> False);
          u = (case s of c # cs \<Rightarrow> if c = CHR ''+'' \<or> c = CHR ''-'' then cs else s | [] \<Rightarrow> s)
      in if u = ''Infinity'' then (if neg then NegInf else PosInf)
         else (case unsigned_decimal u of
                 None \<Rightarrow> NaN
               | Some r \<Rightarrow> round_double (if neg then - r else r)))"

definition radix_literal :: "string \<Rightarrow> jsnum option" where
  "radix_literal s =
     (case s of
        z # x # ds \<Rightarrow>
          if z \<noteq> CHR ''0'' then None
          else if x = CHR ''x'' \<or> x = CHR ''X'' then
            Some (if ds \<noteq> [] \<and> list_all is_hex_digit ds
                  then round_double (of_nat (digits_value 16 ds)) else NaN)
          else if x = CHR ''o'' \<or> x = CHR ''O'' then
            Some (if ds \<noteq> [] \<and> list_all (\<lambda>c. 48 \<le> code c \<and> code c \<le> 55) ds
                  then round_double (of_nat (digits_value 8 ds)) else NaN)
          else if x = CHR ''b'' \<or> x = CHR ''B'' then
            Some (if ds \<noteq> [] \<and> list_all (\<lambda>c. 48 \<le> code c \<and> code c \<le> 49) ds
                  then round_double (of_nat (digits_value 2 ds)) else NaN)
          else None
      | _ \<Rightarrow> None)"

definition StringToNumber :: "string \<Rightarrow> jsnum" where
  "StringToNumber s =
     (let t = trim s
      in if t = [] then Fin 0
         else (case radix_literal t of Some n \<Rightarrow> n | None \<Rightarrow> signed_decimal t))"

subsection \<open>Coercions\<close>

text \<open>\<^verbatim>\<open>typeof v\<close>.\<close>

fun typeof :: "jsval \<Rightarrow> string" where
  "typeof JUndefined = ''undefined''"
| "typeof JNull = ''object''"
| "typeof (JBool _) = ''boolean''"
| "typeof (JNum _) = ''number''"
| "typeof (JStr _) = ''string''"
| "typeof (JArr _) = ''object''"
| "typeof (JObj _ _) = ''object''"

text \<open>\<^verbatim>\<open>Boolean(v)\<close>, the test of \<^verbatim>\<open>if (v)\<close> and of \<^verbatim>\<open>v || w\<close>.\<close>

fun truthy :: "jsval \<Rightarrow> bool" where
  "truthy JUndefined = False"
| "truthy JNull = False"
| "truthy (JBool b) = b"
| "truthy (JNum n) = (n \<noteq> NaN \<and> n \<noteq> Fin 0)"
| "truthy (JStr s) = (s \<noteq> [])"
| "truthy (JArr _) = True"
| "truthy (JObj _ _) = True"

text \<open>\<^verbatim>\<open>!v\<close>\<close>

definition js_not :: "jsval \<Rightarrow> bool" where
  "js_not v = (\<not> truthy v)"

definition or_default :: "jsval \<Rightarrow> jsval \<Rightarrow> jsval" where
  "or_default v w = (if truthy v then v else w)"

text \<open>
  Converting an object to a primitive calls its \<^verbatim>\<open>valueOf\<close> and \<^verbatim>\<open>toString\<close>.
  An own property of that name is data here, never a function, so it hides the
  inherited method; the inherited \<^verbatim>\<open>valueOf\<close> returns the object itself, and the
  inherited \<^verbatim>\<open>toString\<close> gives \<^verbatim>\<open>"[object Object]"\<close>. The conversion therefore
  succeeds exactly for an object that inherits from \<^verbatim>\<open>Object.prototype\<close> and has no
  own \<^verbatim>\<open>toString\<close>; otherwise it throws. An array joins the strings of its elements.
\<close>

fun ToString_ok :: "jsval \<Rightarrow> bool" where
  "ToString_ok (JArr xs) = list_all ToString_ok xs"
| "ToString_ok (JObj p kvs) = (p = ObjectProto \<and> ''toString'' \<notin> set (map fst kvs))"
| "ToString_ok _ = True"

text \<open>
  \<^verbatim>\<open>Number(v)\<close>. An array converts through its joined string: the empty array gives
  the empty string (0), a one-element array the string of its element (the empty
  string for \<^verbatim>\<open>null\<close> and \<^verbatim>\<open>undefined\<close>), and a longer one contains a comma, which
  no numeric literal does.
\<close>

fun ToNumber :: "jsval \<Rightarrow> error + jsnum" where
  "ToNumber JUndefined = Inr NaN"
| "ToNumber JNull = Inr (Fin 0)"
| "ToNumber (JBool b) = Inr (Fin (if b then 1 else 0))"
| "ToNumber (JNum n) = Inr n"
| "ToNumber (JStr s) = Inr (StringToNumber s)"
| "ToNumber (JObj p kvs) = (if ToString_ok (JObj p kvs) then Inr NaN else Inl TypeError)"
| "ToNumber (JArr []) = Inr (Fin 0)"
| "ToNumber (JArr [JUndefined]) = Inr (Fin 0)"
| "ToNumber (JArr [JNull]) = Inr (Fin 0)"
| "ToNumber (JArr [JBool b]) = Inr NaN"
| "ToNumber (JArr [JNum n]) = Inr n"
| "ToNumber (JArr [JStr s]) = Inr (StringToNumber s)"
| "ToNumber (JArr [JArr ys]) = ToNumber (JArr ys)"
| "ToNumber (JArr [JObj p kvs]) = (if ToString_ok (JObj p kvs) then Inr NaN else Inl TypeError)"
| "ToNumber (JArr (x # y # zs)) =
     (if list_all ToString_ok (x # y # zs) then Inr NaN else Inl TypeError)"

subsection \<open>Properties\<close>

text \<open>
  The own enumerable string-keyed properties of a value, in the order \<^verbatim>\<open>for ... in\<close>
  and \<^verbatim>\<open>Object.keys\<close> enumerate them. For an object this is the list it carries (keys
  are distinct in a well-formed object); an array and a string have their indices.
  The standard prototypes have no enumerable members, so nothing inherited is listed.
\<close>

fun own_props :: "jsval \<Rightarrow> (string \<times> jsval) list" where
  "own_props (JObj p kvs) = kvs"
| "own_props (JArr xs) = zip (map index_key [0..<length xs]) xs"
| "own_props (JStr s) = zip (map index_key [0..<length s]) (map (\<lambda>c. JStr [c]) s)"
| "own_props _ = []"

text \<open>
  \<^verbatim>\<open>v.name\<close> for the property names the code reads by name (\<^verbatim>\<open>color1\<close>,
  \<^verbatim>\<open>fontSize\<close>, \<^verbatim>\<open>schedule\<close>, \<^verbatim>\<open>checksum\<close>, ...): none of them is a member of a
  standard prototype, so the read finds an own property of an object or nothing.
  On \<^verbatim>\<open>null\<close> and \<^verbatim>\<open>undefined\<close> a property read throws.
\<close>

fun get_prop :: "jsval \<Rightarrow> string \<Rightarrow> jsval" where
  "get_prop (JObj p kvs) k = (case map_of kvs k of Some x \<Rightarrow> x | None \<Rightarrow> JUndefined)"
| "get_prop _ k = JUndefined"

definition read_prop :: "jsval \<Rightarrow> string \<Rightarrow> error + jsval" where
  "read_prop v k = (if v = JNull \<or> v = JUndefined then Inl TypeError else Inr (get_prop v k))"

text \<open>
  \<^verbatim>\<open>parsed.hasOwnProperty(key)\<close>: the method is looked up on the value first. An own
  property named \<^verbatim>\<open>hasOwnProperty\<close> hides the inherited method and is not callable;
  an object without a prototype inherits no such method. Either way the call throws.
\<close>

fun hasOwnProperty :: "jsval \<Rightarrow> string \<Rightarrow> error + bool" where
  "hasOwnProperty (JObj p kvs) key =
     (if ''hasOwnProperty'' \<in> set (map fst kvs) then Inl TypeError
      else if p = NullProto then Inl TypeError
      else Inr (key \<in> set (map fst kvs)))"
| "hasOwnProperty v key = Inr (key \<in> set (map fst (own_props v)))"

text \<open>Statements in sequence: the first one that throws ends the evaluation.\<close>

fun collect :: "(error + 'a list) list \<Rightarrow> error + 'a list" where
  "collect [] = Inr []"
| "collect (x # xs) =
     (case x of
        Inl e \<Rightarrow> Inl e
      | Inr ys \<Rightarrow> (case collect xs of Inl e \<Rightarrow> Inl e | Inr zs \<Rightarrow> Inr (ys @ zs)))"

section \<open>The sanitizers of validate.js\<close>

subsection \<open>Colors\<close>

text \<open>\<^verbatim>\<open>sanitizeHexColor\<close>, validate.js lines 17-29.\<close>

text \<open>\<^verbatim>\<open>/^#([0-9a-fA-F]{3}|[0-9a-fA-F]{6})$/\<close>\<close>

definition hexRegex :: "string \<Rightarrow> bool" where
  "hexRegex s =
     (case s of
        [] \<Rightarrow> False
      | c # ds \<Rightarrow> c = CHR ''#'' \<and> list_all is_hex_digit ds \<and> (length ds = 3 \<or> length ds = 6))"

text \<open>A parameter with a default value takes it when the argument is \<^verbatim>\<open>undefined\<close>.\<close>

definition default_param :: "jsval \<Rightarrow> jsval \<Rightarrow> jsval" where
  "default_param arg dflt = (if arg = JUndefined then dflt else arg)"

definition sanitizeHexColor :: "jsval \<Rightarrow> jsval \<Rightarrow> jsval" where
  "sanitizeHexColor color fallback_arg =
     (let fallback = default_param fallback_arg (JStr ''#000000'')
      in case color of
           JStr s \<Rightarrow> if hexRegex s then JStr (toLowerCase s) else fallback
         | _ \<Rightarrow> fallback)"

subsection \<open>Numbers\<close>

text \<open>\<^verbatim>\<open>sanitizeNumericRange\<close>, \<^verbatim>\<open>sanitizeFontSize\<close> and \<^verbatim>\<open>sanitizeLineHeight\<close>,
  validate.js lines 57-86.\<close>

text \<open>The bounds and the default are the finite literals of the call sites. Of the
  literals \<^verbatim>\<open>1.0\<close>, \<^verbatim>\<open>2.2\<close> and \<^verbatim>\<open>1.5\<close> the second one is no double and denotes
  the nearest one.\<close>

definition sanitizeNumericRange :: "jsval \<Rightarrow> rat \<Rightarrow> rat \<Rightarrow> rat \<Rightarrow> error + rat" where
  "sanitizeNumericRange v mn mx defaultValue =
     (if v = JNull \<or> v = JUndefined \<or> v = JStr [] then Inr defaultValue
      else (case ToNumber v of
              Inl e \<Rightarrow> Inl e
            | Inr num \<Rightarrow>
                (case num of
                   Fin x \<Rightarrow> Inr (max mn (min mx x))
                 | _ \<Rightarrow> Inr defaultValue)))"

definition sanitizeFontSize :: "jsval \<Rightarrow> error + rat" where
  "sanitizeFontSize fontSize = sanitizeNumericRange fontSize 12 24 16"

definition sanitizeLineHeight :: "jsval \<Rightarrow> error + rat" where
  "sanitizeLineHeight lineHeight =
     sanitizeNumericRange lineHeight 1 (number_literal (22 / 10)) (15 / 10)"

subsection \<open>Domains\<close>

text \<open>\<^verbatim>\<open>sanitizeDomain\<close> and \<^verbatim>\<open>sanitizeDomainList\<close>, validate.js lines 97-140.\<close>

text \<open>
  \<^verbatim>\<open>/^([a-z0-9-]+\.)*[a-z0-9-]+\.[a-z]{2,}$|^localhost$/i\<close>. No character class of
  the first alternative contains the point, so a string matches it exactly when its
  pieces between the points are: at least two, the last one two or more letters, each
  one before it a non-empty run of letters, digits and hyphens. The flag \<^verbatim>\<open>i\<close> lets
  both cases of a letter match.
\<close>

definition is_label_char :: "char \<Rightarrow> bool" where
  "is_label_char c = (is_alpha c \<or> is_digit c \<or> c = CHR ''-'')"

definition ascii_lower :: "char \<Rightarrow> char" where
  "ascii_lower c = (if is_upper c then char_of (code c + 32) else c)"

definition domainRegex :: "string \<Rightarrow> bool" where
  "domainRegex s =
     (let labels = split_on (CHR ''.'') s
      in (2 \<le> length labels
          \<and> list_all (\<lambda>l. l \<noteq> [] \<and> list_all is_label_char l) (butlast labels)
          \<and> 2 \<le> length (last labels) \<and> list_all is_alpha (last labels))
         \<or> map ascii_lower s = ''localhost'')"

definition sanitizeDomain :: "jsval \<Rightarrow> string option" where
  "sanitizeDomain domain =
     (case domain of
        JStr s \<Rightarrow>
          (let d = toLowerCase (trim s)
           in if d = [] then None
              else if 253 < length d then None
              else if domainRegex d then Some d
              else None)
      | _ \<Rightarrow> None)"

definition sanitizeDomainList :: "jsval \<Rightarrow> string list" where
  "sanitizeDomainList domains =
     (case domains of
        JStr s \<Rightarrow> take 1000 (List.map_filter (\<lambda>d. sanitizeDomain (JStr d)) (split_lines s))
      | JArr xs \<Rightarrow> take 1000 (List.map_filter sanitizeDomain xs)
      | _ \<Rightarrow> [])"

subsection \<open>Times and modes\<close>

text \<open>\<^verbatim>\<open>sanitizeTimeString\<close> and \<^verbatim>\<open>sanitizeColorBlindMode\<close>, validate.js lines
  152-186.\<close>

text \<open>\<^verbatim>\<open>/^([0-1][0-9]|2[0-3]):([0-5][0-9])$/\<close>\<close>

definition timeRegex :: "string \<Rightarrow> bool" where
  "timeRegex s =
     (case s of
        [h1, h2, c, m1, m2] \<Rightarrow>
          (((h1 = CHR ''0'' \<or> h1 = CHR ''1'') \<and> is_digit h2)
            \<or> (h1 = CHR ''2'' \<and> 48 \<le> code h2 \<and> code h2 \<le> 51))
          \<and> c = CHR '':''
          \<and> 48 \<le> code m1 \<and> code m1 \<le> 53 \<and> is_digit m2
      | _ \<Rightarrow> False)"

definition sanitizeTimeString :: "jsval \<Rightarrow> jsval \<Rightarrow> jsval" where
  "sanitizeTimeString time fallback_arg =
     (let fallback = default_param fallback_arg (JStr ''00:00'')
      in case time of
           JStr s \<Rightarrow> if timeRegex s then JStr s else fallback
         | _ \<Rightarrow> fallback)"

definition validModes :: "string list" where
  "validModes = [''none'', ''protanopia'', ''deuteranopia'', ''tritanopia'', ''achromatopsia'']"

definition sanitizeColorBlindMode :: "jsval \<Rightarrow> string" where
  "sanitizeColorBlindMode mode =
     (if mode = JBool True then ''protanopia''
      else if mode = JBool False then ''none''
      else (case mode of
              JStr s \<Rightarrow> if s \<in> set validModes then s else ''none''
            | _ \<Rightarrow> ''none''))"

subsection \<open>Per-site overrides\<close>

text \<open>\<^verbatim>\<open>sanitizePerSiteOverrides\<close>, validate.js lines 194-260.\<close>

definition forbidden_key :: "string \<Rightarrow> bool" where
  "forbidden_key key = (key = ''__proto__'' \<or> key = ''constructor'' \<or> key = ''prototype'')"

text \<open>
  The properties that one pass of the loop writes into the fresh \<^verbatim>\<open>safe[domain]\<close>,
  in the order of the assignments: a color, a number and the mode when the input
  value is truthy, a flag when it is not \<^verbatim>\<open>undefined\<close>.
\<close>

definition color_field :: "jsval \<Rightarrow> string \<Rightarrow> string \<Rightarrow> error + (string \<times> jsval) list" where
  "color_field ds name fallback =
     (if truthy (get_prop ds name)
      then Inr [(name, sanitizeHexColor (get_prop ds name) (JStr fallback))] else Inr [])"

definition flag_field :: "jsval \<Rightarrow> string \<Rightarrow> error + (string \<times> jsval) list" where
  "flag_field ds name =
     (if get_prop ds name \<noteq> JUndefined
      then Inr [(name, JBool (truthy (get_prop ds name)))] else Inr [])"

definition number_field ::
  "jsval \<Rightarrow> string \<Rightarrow> (jsval \<Rightarrow> error + rat) \<Rightarrow> error + (string \<times> jsval) list" where
  "number_field ds name sanitize =
     (if truthy (get_prop ds name)
      then (case sanitize (get_prop ds name) of
              Inl e \<Rightarrow> Inl e
            | Inr r \<Rightarrow> Inr [(name, JNum (Fin r))])
      else Inr [])"

definition mode_field :: "jsval \<Rightarrow> error + (string \<times> jsval) list" where
  "mode_field ds =
     (if truthy (get_prop ds ''colorBlindMode'')
      then Inr [(''colorBlindMode'', JStr (sanitizeColorBlindMode (get_prop ds ''colorBlindMode'')))]
      else Inr [])"

definition override_fields :: "jsval \<Rightarrow> error + (string \<times> jsval) list" where
  "override_fields domainSettings =
     collect
       [color_field domainSettings ''color1'' ''#00ffff'',
        color_field domainSettings ''color2'' ''#00ff00'',
        color_field domainSettings ''color3'' ''#ff00ff'',
        color_field domainSettings ''color4'' ''#ff0000'',
        flag_field domainSettings ''textShadow'',
        flag_field domainSettings ''highContrast'',
        flag_field domainSettings ''focusOutline'',
        flag_field domainSettings ''reducedMotion'',
        number_field domainSettings ''fontSize'' sanitizeFontSize,
        number_field domainSettings ''lineHeight'' sanitizeLineHeight,
        mode_field domainSettings]"

text \<open>
  The loop \<^verbatim>\<open>for (const key in parsed)\<close> over the properties still to visit, with
  the map \<^verbatim>\<open>safe\<close> built so far. Writing \<^verbatim>\<open>safe[domain]\<close> replaces the value of a
  domain that is already there and keeps its place, and adds a new domain at the end.
\<close>

fun overrides_loop ::
  "jsval \<Rightarrow> (string \<times> jsval) list \<Rightarrow> (string \<times> jsval) list \<Rightarrow> error + (string \<times> jsval) list" where
  "overrides_loop parsed [] safe = Inr safe"
| "overrides_loop parsed ((key, domainSettings) # rest) safe =
     (case hasOwnProperty parsed key of
        Inl e \<Rightarrow> Inl e
      | Inr own \<Rightarrow>
          if \<not> own then overrides_loop parsed rest safe
          else if forbidden_key key then overrides_loop parsed rest safe
          else (case sanitizeDomain (JStr key) of
                  None \<Rightarrow> overrides_loop parsed rest safe
                | Some domain \<Rightarrow>
                    if domain = [] then overrides_loop parsed rest safe
                    else if typeof domainSettings \<noteq> ''object'' \<or> domainSettings = JNull
                      then overrides_loop parsed rest safe
                    else (case override_fields domainSettings of
                            Inl e \<Rightarrow> Inl e
                          | Inr fields \<Rightarrow>
                              overrides_loop parsed rest
                                (AList.update domain (JObj NullProto fields) safe))))"

text \<open>
  \<^verbatim>\<open>JSON.parse\<close> belongs to the platform and is a parameter: \<open>None\<close> when it throws,
  the parsed value otherwise. The first statements of \<^verbatim>\<open>sanitizePerSiteOverrides\<close>
  give the value to loop over, or nothing when the function returns an empty map at
  once: for text that does not parse and for a value that is neither text nor an
  object.
\<close>

definition parse_overrides :: "(string \<Rightarrow> jsval option) \<Rightarrow> jsval \<Rightarrow> jsval option" where
  "parse_overrides JSON_parse overrides =
     (case overrides of
        JStr s \<Rightarrow> JSON_parse s
      | _ \<Rightarrow> if typeof overrides = ''object'' \<and> overrides \<noteq> JNull then Some overrides else None)"

text \<open>A parsed value that is not an object has no property the loop keeps. More than
  100 domains are cut to the first 100.\<close>

definition sanitizePerSiteOverrides :: "(string \<Rightarrow> jsval option) \<Rightarrow> jsval \<Rightarrow> error + jsval" where
  "sanitizePerSiteOverrides JSON_parse overrides =
     (case parse_overrides JSON_parse overrides of
        None \<Rightarrow> Inr (JObj NullProto [])
      | Some parsed \<Rightarrow>
          (case overrides_loop parsed (own_props parsed) [] of
             Inl e \<Rightarrow> Inl e
           | Inr safe \<Rightarrow>
               if 100 < length (map fst safe) then Inr (JObj NullProto (take 100 safe))
               else Inr (JObj NullProto safe)))"

subsection \<open>The whole settings record\<close>

text \<open>\<^verbatim>\<open>validateSettingsObject\<close>, validate.js lines 268-302.\<close>

text \<open>
  \<^verbatim>\<open>Object.assign({}, defaults)\<close> copies the own enumerable properties into a fresh
  ordinary object. A key \<^verbatim>\<open>__proto__\<close> is assigned through the prototype setter and
  creates no property; defaults with such a key are outside the model.
\<close>

definition assign_to_empty :: "jsval \<Rightarrow> jsval" where
  "assign_to_empty source =
     JObj ObjectProto (filter (\<lambda>(k, v). k \<noteq> ''__proto__'') (own_props source))"

definition validated_color :: "jsval \<Rightarrow> jsval \<Rightarrow> string \<Rightarrow> error + (string \<times> jsval) list" where
  "validated_color settings defaults name =
     (case read_prop defaults name of
        Inl e \<Rightarrow> Inl e
      | Inr fallback \<Rightarrow> Inr [(name, sanitizeHexColor (get_prop settings name) fallback)])"

definition validated_flag :: "jsval \<Rightarrow> string \<Rightarrow> error + (string \<times> jsval) list" where
  "validated_flag settings name = Inr [(name, JBool (truthy (get_prop settings name)))]"

definition validated_number ::
  "jsval \<Rightarrow> string \<Rightarrow> (jsval \<Rightarrow> error + rat) \<Rightarrow> error + (string \<times> jsval) list" where
  "validated_number settings name sanitize =
     (case sanitize (get_prop settings name) of
        Inl e \<Rightarrow> Inl e
      | Inr r \<Rightarrow> Inr [(name, JNum (Fin r))])"

definition default_schedule :: jsval where
  "default_schedule =
     JObj ObjectProto
       [(''enabled'', JBool False), (''start'', JStr ''20:00''), (''end'', JStr ''06:00'')]"

definition validated_schedule :: "jsval \<Rightarrow> jsval \<Rightarrow> error + (string \<times> jsval) list" where
  "validated_schedule settings defaults =
     (let schedule = get_prop settings ''schedule''
      in if truthy schedule \<and> typeof schedule = ''object'' then
           Inr [(''schedule'',
                 JObj ObjectProto
                   [(''enabled'', JBool (truthy (get_prop schedule ''enabled''))),
                    (''start'', sanitizeTimeString (get_prop schedule ''start'') (JStr ''20:00'')),
                    (''end'', sanitizeTimeString (get_prop schedule ''end'') (JStr ''06:00''))])]
         else (case read_prop defaults ''schedule'' of
                 Inl e \<Rightarrow> Inl e
               | Inr s \<Rightarrow> Inr [(''schedule'', or_default s default_schedule)]))"

definition validateSettingsObject ::
  "(string \<Rightarrow> jsval option) \<Rightarrow> jsval \<Rightarrow> jsval \<Rightarrow> error + jsval" where
  "validateSettingsObject JSON_parse settings defaults =
     (if js_not settings \<or> typeof settings \<noteq> ''object'' then Inr (assign_to_empty defaults)
      else
        (case collect
           [validated_color settings defaults ''color1'',
            validated_color settings defaults ''color2'',
            validated_color settings defaults ''color3'',
            validated_color settings defaults ''color4'',
            validated_flag settings ''textShadow'',
            validated_flag settings ''highContrast'',
            validated_flag settings ''focusOutline'',
            validated_flag settings ''reducedMotion'',
            validated_number settings ''fontSize'' sanitizeFontSize,
            validated_number settings ''lineHeight'' sanitizeLineHeight,
            Inr [(''colorBlindMode'',
                  JStr (sanitizeColorBlindMode (get_prop settings ''colorBlindMode'')))],
            Inr [(''blacklist'',
                  JArr (map JStr
                    (sanitizeDomainList (or_default (get_prop settings ''blacklist'') (JArr [])))))],
            (case sanitizePerSiteOverrides JSON_parse
                    (or_default (get_prop settings ''perSiteOverrides'') (JObj ObjectProto [])) of
               Inl e \<Rightarrow> Inl e
             | Inr safe \<Rightarrow> Inr [(''perSiteOverrides'', safe)]),
            validated_flag settings ''debugMode'',
            validated_schedule settings defaults] of
           Inl e \<Rightarrow> Inl e
         | Inr validated \<Rightarrow> Inr (JObj ObjectProto validated)))"

subsection \<open>Checksums and signed envelopes\<close>

text \<open>\<^verbatim>\<open>calculateChecksum\<close>, \<^verbatim>\<open>signSettings\<close> and \<^verbatim>\<open>verifySettings\<close>, validate.js
  lines 340-401.\<close>

text \<open>
  \<^verbatim>\<open>calculateChecksum\<close> serializes with \<^verbatim>\<open>JSON.stringify\<close> and digests with
  \<^verbatim>\<open>crypto.subtle\<close> when the platform has it; both are parameters (\<open>subtle\<close> is the
  hexadecimal SHA-256 of a string, or \<open>None\<close>). Without it the code folds the code
  units into a 32-bit integer, \<^verbatim>\<open>hash = ((hash << 5) - hash) + char; hash = hash & hash\<close>,
  and prints it with \<^verbatim>\<open>toString(16)\<close>: hexadecimal digits after a minus sign for a
  negative value.
\<close>

fun hex_of_nat :: "nat \<Rightarrow> string" where
  "hex_of_nat n =
     (let d = n mod 16;
          c = (if d < 10 then char_of (48 + d) else char_of (87 + d))
      in if n < 16 then [c] else hex_of_nat (n div 16) @ [c])"

declare hex_of_nat.simps [simp del]

definition int_toString16 :: "int \<Rightarrow> string" where
  "int_toString16 i = (if i < 0 then CHR ''-'' # hex_of_nat (nat (- i)) else hex_of_nat (nat i))"

definition simple_hash :: "string \<Rightarrow> 32 word" where
  "simple_hash str = foldl (\<lambda>hash c. (push_bit 5 hash - hash) + of_nat (code c)) 0 str"

definition calculateChecksum ::
  "(jsval \<Rightarrow> string) \<Rightarrow> (string \<Rightarrow> string) option \<Rightarrow> jsval \<Rightarrow> string" where
  "calculateChecksum JSON_stringify subtle data =
     (let str = JSON_stringify data
      in case subtle of
           Some sha256_hex \<Rightarrow> sha256_hex str
         | None \<Rightarrow> int_toString16 (sint (simple_hash str)))"

definition signSettings ::
  "(jsval \<Rightarrow> string) \<Rightarrow> (string \<Rightarrow> string) option \<Rightarrow> jsval \<Rightarrow> jsval" where
  "signSettings JSON_stringify subtle settings =
     JObj ObjectProto
       [(''version'', JStr ''1.0''),
        (''checksum'', JStr (calculateChecksum JSON_stringify subtle settings)),
        (''data'', settings)]"

definition verifySettings ::
  "(jsval \<Rightarrow> string) \<Rightarrow> (string \<Rightarrow> string) option \<Rightarrow> jsval \<Rightarrow> error + jsval" where
  "verifySettings JSON_stringify subtle signedSettings =
     (if js_not signedSettings \<or> typeof signedSettings \<noteq> ''object'' then Inr JNull
      else if js_not (get_prop signedSettings ''version'')
              \<and> js_not (get_prop signedSettings ''checksum'') then Inr signedSettings
      else
        (let checksum = get_prop signedSettings ''checksum'';
             data = get_prop signedSettings ''data''
         in if js_not data then Inr JNull
            else if checksum = JStr (calculateChecksum JSON_stringify subtle data) then Inr data
            else Inr JNull))"

subsection \<open>The serializer\<close>

text \<open>
  \<^verbatim>\<open>JSON.stringify(value)\<close> on the values modelled here, for the statements that need
  the text of a value and not only that it has one. A string is quoted, with the
  escapes of the standard for the quote, the backslash and the code units below 32.
  An object lists its properties in enumeration order and leaves out those whose
  value is \<^verbatim>\<open>undefined\<close>; an array writes \<^verbatim>\<open>null\<close> for such an element, and
  \<^verbatim>\<open>NaN\<close> and the infinities are written \<^verbatim>\<open>null\<close> too. The text of a finite
  number (\<^verbatim>\<open>Number.prototype.toString\<close>) stays a parameter. \<^verbatim>\<open>undefined\<close> itself
  has no text; \<^verbatim>\<open>verifySettings\<close> serializes truthy data only.
\<close>

definition hex_digit :: "nat \<Rightarrow> char" where
  "hex_digit d = (if d < 10 then char_of (48 + d) else char_of (87 + d))"

definition json_escape :: "char \<Rightarrow> string" where
  "json_escape c =
     (let n = code c; backslash = char_of (92 :: nat)
      in if n = 8 then [backslash, CHR ''b'']
         else if n = 9 then [backslash, CHR ''t'']
         else if n = 10 then [backslash, CHR ''n'']
         else if n = 12 then [backslash, CHR ''f'']
         else if n = 13 then [backslash, CHR ''r'']
         else if n = 34 \<or> n = 92 then [backslash, c]
         else if n < 32 then
           [backslash, CHR ''u'', CHR ''0'', CHR ''0'', hex_digit (n div 16), hex_digit (n mod 16)]
         else [c])"

definition QuoteJSONString :: "string \<Rightarrow> string" where
  "QuoteJSONString s = char_of (34 :: nat) # concat (map json_escape s) @ [char_of (34 :: nat)]"

fun join_comma :: "string list \<Rightarrow> string" where
  "join_comma [] = []"
| "join_comma [x] = x"
| "join_comma (x # y # ys) = x @ CHR '','' # join_comma (y # ys)"

fun SerializeJSONProperty :: "(rat \<Rightarrow> string) \<Rightarrow> jsval \<Rightarrow> string option"
  and SerializeJSONArray :: "(rat \<Rightarrow> string) \<Rightarrow> jsval list \<Rightarrow> string list"
  and SerializeJSONObject :: "(rat \<Rightarrow> string) \<Rightarrow> (string \<times> jsval) list \<Rightarrow> string list" where
  "SerializeJSONProperty N JUndefined = None"
| "SerializeJSONProperty N JNull = Some ''null''"
| "SerializeJSONProperty N (JBool b) = Some (if b then ''true'' else ''false'')"
| "SerializeJSONProperty N (JNum n) = Some (case n of Fin x \<Rightarrow> N x | _ \<Rightarrow> ''null'')"
| "SerializeJSONProperty N (JStr s) = Some (QuoteJSONString s)"
| "SerializeJSONProperty N (JArr xs) = Some (''['' @ join_comma (SerializeJSONArray N xs) @ '']'')"
| "SerializeJSONProperty N (JObj p kvs) =
     Some (''{'' @ join_comma (SerializeJSONObject N kvs) @ ''}'')"
| "SerializeJSONArray N [] = []"
| "SerializeJSONArray N (x # xs) =
     (case SerializeJSONProperty N x of Some t \<Rightarrow> t | None \<Rightarrow> ''null'') # SerializeJSONArray N xs"
| "SerializeJSONObject N [] = []"
| "SerializeJSONObject N ((k, v) # kvs) =
     (case SerializeJSONProperty N v of
        Some t \<Rightarrow> (QuoteJSONString k @ CHR '':'' # t) # SerializeJSONObject N kvs
      | None \<Rightarrow> SerializeJSONObject N kvs)"

definition stringify :: "(rat \<Rightarrow> string) \<Rightarrow> jsval \<Rightarrow> string" where
  "stringify N v = (case SerializeJSONProperty N v of Some t \<Rightarrow> t | None \<Rightarrow> [])"

section \<open>The schedule gate of content.js\<close>

text \<open>
  \<^verbatim>\<open>loadAndApplyCyberdark\<close>, content.js lines 541-683. The callback of the first
  read (lines 544-629) and the change listener (lines 634-663) compute their locals
  \<^verbatim>\<open>enabled\<close>, \<^verbatim>\<open>blacklisted\<close> and \<^verbatim>\<open>finalSettings\<close> by the same statements; the
  two decisions are modelled from these locals.
\<close>

text \<open>Arithmetic and comparison of numbers, with \<^verbatim>\<open>NaN\<close> and the infinities.\<close>

fun js_add :: "jsnum \<Rightarrow> jsnum \<Rightarrow> jsnum" where
  "js_add NaN _ = NaN"
| "js_add _ NaN = NaN"
| "js_add PosInf NegInf = NaN"
| "js_add NegInf PosInf = NaN"
| "js_add PosInf _ = PosInf"
| "js_add _ PosInf = PosInf"
| "js_add NegInf _ = NegInf"
| "js_add _ NegInf = NegInf"
| "js_add (Fin a) (Fin b) = round_double (a + b)"

definition js_negative :: "jsnum \<Rightarrow> bool" where
  "js_negative n = (case n of NegInf \<Rightarrow> True | Fin a \<Rightarrow> a < 0 | _ \<Rightarrow> False)"

fun js_mul :: "jsnum \<Rightarrow> jsnum \<Rightarrow> jsnum" where
  "js_mul NaN _ = NaN"
| "js_mul _ NaN = NaN"
| "js_mul (Fin a) (Fin b) = round_double (a * b)"
| "js_mul a b =
     (if a = Fin 0 \<or> b = Fin 0 then NaN
      else if js_negative a = js_negative b then PosInf else NegInf)"

fun js_lt :: "jsnum \<Rightarrow> jsnum \<Rightarrow> bool" where
  "js_lt NaN _ = False"
| "js_lt _ NaN = False"
| "js_lt (Fin a) (Fin b) = (a < b)"
| "js_lt NegInf b = (b \<noteq> NegInf)"
| "js_lt a PosInf = (a \<noteq> PosInf)"
| "js_lt _ _ = False"

definition js_ge :: "jsnum \<Rightarrow> jsnum \<Rightarrow> bool" where
  "js_ge a b = (a \<noteq> NaN \<and> b \<noteq> NaN \<and> \<not> js_lt a b)"

text \<open>
  \<^verbatim>\<open>const [h, m] = t.split(':').map(Number); h * 60 + m\<close>. Only a string has
  \<^verbatim>\<open>split\<close>; a piece that is missing is \<^verbatim>\<open>undefined\<close> and makes the sum
  \<^verbatim>\<open>NaN\<close>.
\<close>

definition schedule_minutes :: "jsval \<Rightarrow> error + jsnum" where
  "schedule_minutes t =
     (case t of
        JStr s \<Rightarrow>
          (case map StringToNumber (split_on (CHR '':'') s) of
             [] \<Rightarrow> Inr NaN
           | [h] \<Rightarrow> Inr (js_add (js_mul h (Fin 60)) NaN)
           | h # m # _ \<Rightarrow> Inr (js_add (js_mul h (Fin 60)) m))
      | _ \<Rightarrow> Inl TypeError)"

text \<open>
  The decision of the load path (the callback of \<^verbatim>\<open>chrome.storage.sync.get\<close> in
  \<^verbatim>\<open>loadAndApplyCyberdark\<close>) from its locals \<^verbatim>\<open>enabled\<close>, \<^verbatim>\<open>blacklisted\<close> and
  \<^verbatim>\<open>finalSettings\<close> and the local time of day.
\<close>

definition load_shouldApply :: "bool \<Rightarrow> bool \<Rightarrow> jsval \<Rightarrow> nat \<Rightarrow> nat \<Rightarrow> error + bool" where
  "load_shouldApply enabled blacklisted finalSettings hours minutes =
     (let shouldApply = (enabled \<and> \<not> blacklisted);
          schedule = get_prop finalSettings ''schedule''
      in if shouldApply \<and> truthy schedule \<and> truthy (get_prop schedule ''enabled'') then
           (let currentTime = Fin (of_nat (hours * 60 + minutes))
            in case schedule_minutes (get_prop schedule ''start'') of
                 Inl e \<Rightarrow> Inl e
               | Inr startTime \<Rightarrow>
                   (case schedule_minutes (get_prop schedule ''end'') of
                      Inl e \<Rightarrow> Inl e
                    | Inr endTime \<Rightarrow>
                        if js_lt startTime endTime
                        then Inr (js_ge currentTime startTime \<and> js_lt currentTime endTime)
                        else Inr (js_ge currentTime startTime \<or> js_lt currentTime endTime)))
         else Inr shouldApply)"

text \<open>
  The decision of the change path (the \<^verbatim>\<open>chrome.storage.onChanged\<close> listener), from
  the same locals: \<^verbatim>\<open>if (enabled && !blacklisted)\<close>.
\<close>

definition change_shouldApply :: "bool \<Rightarrow> bool \<Rightarrow> jsval \<Rightarrow> nat \<Rightarrow> nat \<Rightarrow> error + bool" where
  "change_shouldApply enabled blacklisted finalSettings hours minutes =
     Inr (enabled \<and> \<not> blacklisted)"

text \<open>Minutes since midnight of a time \<^verbatim>\<open>HH:MM\<close>, as the specification words it.\<close>

definition minutes_since_midnight :: "string \<Rightarrow> nat" where
  "minutes_since_midnight s =
     (case s of
        [h1, h2, c, m1, m2] \<Rightarrow>
          ((code h1 - 48) * 10 + (code h2 - 48)) * 60 + ((code m1 - 48) * 10 + (code m2 - 48))
      | _ \<Rightarrow> 0)"

definition in_schedule_window :: "nat \<Rightarrow> nat \<Rightarrow> nat \<Rightarrow> bool" where
  "in_schedule_window start finish now =
     (if start < finish then start \<le> now \<and> now < finish else start \<le> now \<or> now < finish)"

section \<open>Injecting the main stylesheet\<close>

text \<open>\<^verbatim>\<open>applyCyberdarkStyles\<close>, content.js lines 179-366, with \<^verbatim>\<open>config.js\<close> and
  \<^verbatim>\<open>validate.js\<close> loaded.\<close>

text \<open>
  The document as \<^verbatim>\<open>applyCyberdarkStyles\<close> sees it: the elements below
  \<^verbatim>\<open>document.head\<close> in document order when there is a head, the other elements
  below the root, or no root element at all. The text of a stylesheet is an opaque
  payload and is left out.
\<close>

record element =
  tag :: string
  attrs :: "(string \<times> string) list"

datatype document =
    NoRoot
  | RootOnly "element list"
  | WithHead "element list" "element list"

text \<open>\<^verbatim>\<open>style[data-cyberdark="main"]\<close>\<close>

definition is_main_style :: "element \<Rightarrow> bool" where
  "is_main_style e = (tag e = ''style'' \<and> map_of (attrs e) ''data-cyberdark'' = Some ''main'')"

definition main_style :: element where
  "main_style =
     \<lparr>tag = ''style'',
      attrs = [(''data-cyberdark'', ''main''),
               (''aria-label'', ''Cyberdark enforced dark mode and accessibility styles''),
               (''role'', ''presentation'')]\<rparr>"

text \<open>\<^verbatim>\<open>prev = target.querySelector(...); if (prev) prev.remove()\<close>: the first match in
  document order leaves the tree.\<close>

fun remove_first :: "('a \<Rightarrow> bool) \<Rightarrow> 'a list \<Rightarrow> 'a list" where
  "remove_first P [] = []"
| "remove_first P (x # xs) = (if P x then xs else x # remove_first P xs)"

definition inject_main :: "element list \<Rightarrow> element list" where
  "inject_main els =
     (let els' = remove_first is_main_style els
      in if \<not> list_ex is_main_style els' then els' @ [main_style] else els')"

text \<open>
  The statements before the DOM is touched throw for settings that are \<^verbatim>\<open>null\<close> or
  \<^verbatim>\<open>undefined\<close> (the destructuring) and for a color-blind mode that cannot be
  converted to a property key (\<^verbatim>\<open>config.COLORBLIND_PALETTES[mode]\<close>); the
  \<^verbatim>\<open>catch\<close> logs the error and the document stays as it was.
\<close>

definition palette_throws :: "jsval \<Rightarrow> bool" where
  "palette_throws settings =
     (settings = JNull \<or> settings = JUndefined
      \<or> (let colorBlindMode = get_prop settings ''colorBlindMode'';
              mode = (if colorBlindMode = JBool True then JStr ''protanopia'' else colorBlindMode)
          in truthy mode \<and> mode \<noteq> JStr ''none'' \<and> \<not> ToString_ok mode))"

definition applyCyberdarkStyles :: "jsval \<Rightarrow> document \<Rightarrow> document" where
  "applyCyberdarkStyles settings doc =
     (if palette_throws settings then doc
      else (case doc of
              NoRoot \<Rightarrow> NoRoot
            | RootOnly els \<Rightarrow> RootOnly (inject_main els)
            | WithHead head_els others \<Rightarrow> WithHead (inject_main head_els) others))"

definition count_main :: "document \<Rightarrow> nat" where
  "count_main doc =
     (case doc of
        NoRoot \<Rightarrow> 0
      | RootOnly els \<Rightarrow> length (filter is_main_style els)
      | WithHead head_els others \<Rightarrow>
          length (filter is_main_style head_els) + length (filter is_main_style others))"

text \<open>The main stylesheets below the injection target and those elsewhere in the
  document.\<close>

definition count_in_target :: "document \<Rightarrow> nat" where
  "count_in_target doc =
     (case doc of
        NoRoot \<Rightarrow> 0
      | RootOnly els \<Rightarrow> length (filter is_main_style els)
      | WithHead head_els others \<Rightarrow> length (filter is_main_style head_els))"

definition count_outside_target :: "document \<Rightarrow> nat" where
  "count_outside_target doc =
     (case doc of WithHead head_els others \<Rightarrow> length (filter is_main_style others) | _ \<Rightarrow> 0)"

section \<open>Inputs of the repository\<close>

text \<open>\<^verbatim>\<open>DEFAULT_SETTINGS\<close> of \<^verbatim>\<open>config.js\<close>, the defaults that the options page and the
  popup pass to \<^verbatim>\<open>validateSettingsObject\<close>.\<close>

definition DEFAULT_SETTINGS :: jsval where
  "DEFAULT_SETTINGS =
     JObj ObjectProto
       [(''color1'', JStr ''#00ffff''),
        (''color2'', JStr ''#00ff00''),
        (''color3'', JStr ''#ff00ff''),
        (''color4'', JStr ''#ff0000''),
        (''textShadow'', JBool True),
        (''highContrast'', JBool True),
        (''focusOutline'', JBool True),
        (''reducedMotion'', JBool False),
        (''fontSize'', JNum (Fin 16)),
        (''lineHeight'', JNum (Fin (15 / 10))),
        (''colorBlindMode'', JStr ''none''),
        (''blacklist'', JArr []),
        (''perSiteOverrides'', JObj ObjectProto []),
        (''enabled'', JBool True),
        (''schedule'',
         JObj ObjectProto
           [(''enabled'', JBool False), (''start'', JStr ''20:00''), (''end'', JStr ''06:00'')]),
        (''resourceMonitorEnabled'', JBool True),
        (''debugMode'', JBool False)]"

text \<open>A settings record with one per-site override,
  \<^verbatim>\<open>{perSiteOverrides: {"example.com": {fontSize: 18}}}\<close>, and what validating it
  returns.\<close>

definition override_record :: jsval where
  "override_record =
     JObj ObjectProto
       [(''perSiteOverrides'',
         JObj ObjectProto [(''example.com'', JObj ObjectProto [(''fontSize'', JNum (Fin 18))])])]"

definition override_record_validated :: jsval where
  "override_record_validated =
     JObj ObjectProto
       [(''color1'', JStr ''#00ffff''),
        (''color2'', JStr ''#00ff00''),
        (''color3'', JStr ''#ff00ff''),
        (''color4'', JStr ''#ff0000''),
        (''textShadow'', JBool False),
        (''highContrast'', JBool False),
        (''focusOutline'', JBool False),
        (''reducedMotion'', JBool False),
        (''fontSize'', JNum (Fin 16)),
        (''lineHeight'', JNum (Fin (15 / 10))),
        (''colorBlindMode'', JStr ''none''),
        (''blacklist'', JArr []),
        (''perSiteOverrides'',
         JObj NullProto [(''example.com'', JObj NullProto [(''fontSize'', JNum (Fin 18))])]),
        (''debugMode'', JBool False),
        (''schedule'',
         JObj ObjectProto
           [(''enabled'', JBool False), (''start'', JStr ''20:00''), (''end'', JStr ''06:00'')])]"

text \<open>Final settings with a schedule from 09:00 to 17:00 and with the overnight
  schedule from 20:00 to 06:00.\<close>

definition schedule_settings :: "string \<Rightarrow> string \<Rightarrow> jsval" where
  "schedule_settings start finish =
     JObj ObjectProto
       [(''schedule'',
         JObj ObjectProto
           [(''enabled'', JBool True), (''start'', JStr start), (''end'', JStr finish)])]"

text \<open>An envelope whose \<^verbatim>\<open>version\<close> and \<^verbatim>\<open>checksum\<close> are present and empty:
  \<^verbatim>\<open>{version: "", checksum: "", data: {color1: "#000000"}}\<close>.\<close>

definition blank_envelope :: jsval where
  "blank_envelope =
     JObj ObjectProto
       [(''version'', JStr ''''), (''checksum'', JStr ''''),
        (''data'', JObj ObjectProto [(''color1'', JStr ''#000000'')])]"

text \<open>\<^verbatim>\<open>envelope.data = d\<close>: the mutation of a signed envelope.\<close>

definition replace_data :: "jsval \<Rightarrow> jsval \<Rightarrow> jsval" where
  "replace_data envelope d =
     (case envelope of JObj p kvs \<Rightarrow> JObj p (AList.update ''data'' d kvs) | _ \<Rightarrow> envelope)"

text \<open>Signed data \<^verbatim>\<open>{color1: "#00ffAa"}\<close> and the data \<^verbatim>\<open>{color1: "#00ffBB"}\<close> that
  differs from it in two code units; signed data \<^verbatim>\<open>{color1: "#00ffff"}\<close>, the data
  \<^verbatim>\<open>{color1: "#00fff0"}\<close> that differs from it in one code unit, and the signed data
  with one more property, \<^verbatim>\<open>color2: undefined\<close>.\<close>

definition signed_data :: jsval where
  "signed_data = JObj ObjectProto [(''color1'', JStr ''#00ffAa'')]"

definition tampered_data :: jsval where
  "tampered_data = JObj ObjectProto [(''color1'', JStr ''#00ffBB'')]"

definition plain_data :: jsval where
  "plain_data = JObj ObjectProto [(''color1'', JStr ''#00ffff'')]"

definition one_unit_data :: jsval where
  "one_unit_data = JObj ObjectProto [(''color1'', JStr ''#00fff0'')]"

definition padded_data :: jsval where
  "padded_data = JObj ObjectProto [(''color1'', JStr ''#00ffff''), (''color2'', JUndefined)]"

text \<open>Override input with the keys of a prototype-pollution attempt beside a domain, and
  an override whose recognized values are falsy except one flag and the line height.\<close>

definition polluted_overrides :: jsval where
  "polluted_overrides =
     JObj ObjectProto
       [(''__proto__'', JObj ObjectProto [(''polluted'', JBool True)]),
        (''constructor'', JObj ObjectProto []),
        (''example.com'', JObj ObjectProto [(''fontSize'', JNum (Fin 18))])]"

definition falsy_override :: jsval where
  "falsy_override =
     JObj ObjectProto
       [(''example.com'',
         JObj ObjectProto
           [(''fontSize'', JNum (Fin 0)),
            (''colorBlindMode'', JBool False),
            (''color1'', JStr ''''),
            (''textShadow'', JBool False),
            (''lineHeight'', JNum (Fin 2))])]"





text \<open>A document whose head already holds four main stylesheets.\<close>

definition four_main_styles :: document where
  "four_main_styles = WithHead [main_style, main_style, main_style, main_style] []"

section \<open>Notions of the statements\<close>

text \<open>An entry \<open>(d, e)\<close> of the sanitized map comes from an own property of the parsed
  input: its key sanitizes to \<open>d\<close> and \<open>e\<close> holds the fields kept from its value.\<close>

definition entry_origin :: "(string \<Rightarrow> jsval option) \<Rightarrow> jsval \<Rightarrow> string \<Rightarrow> jsval \<Rightarrow> bool" where
  "entry_origin P v d e =
     (\<exists>parsed key ds fs. parse_overrides P v = Some parsed \<and> (key, ds) \<in> set (own_props parsed)
        \<and> sanitizeDomain (JStr key) = Some d
        \<and> override_fields ds = Inr fs \<and> e = JObj NullProto fs)"

text \<open>The sub-fields that are tested for truthiness and the flags that are tested
  against \<^verbatim>\<open>undefined\<close>.\<close>

definition truthy_fields :: "string list" where
  "truthy_fields =
     [''color1'', ''color2'', ''color3'', ''color4'', ''fontSize'', ''lineHeight'', ''colorBlindMode'']"

definition flag_fields :: "string list" where
  "flag_fields = [''textShadow'', ''highContrast'', ''focusOutline'', ''reducedMotion'']"




text \<open>The schedule in the record that \<^verbatim>\<open>validateSettingsObject\<close> returns for the
  defaults of \<^verbatim>\<open>config.js\<close>.\<close>

definition first_pass_schedule :: "jsval \<Rightarrow> jsval" where
  "first_pass_schedule r =
     (let schedule = get_prop r ''schedule''
      in if truthy schedule \<and> typeof schedule = ''object'' then
           JObj ObjectProto
             [(''enabled'', JBool (truthy (get_prop schedule ''enabled''))),
              (''start'', sanitizeTimeString (get_prop schedule ''start'') (JStr ''20:00'')),
              (''end'', sanitizeTimeString (get_prop schedule ''end'') (JStr ''06:00''))]
         else default_schedule)"

section \<open>Rounding to a double\<close>

lemma bit_length_0: "bit_length 0 = 0"
  by (subst bit_length.simps) simp

lemma bit_length_pos: "0 < n \<Longrightarrow> bit_length n = Suc (bit_length (n div 2))"
  by (subst bit_length.simps) simp

lemma bit_length_le: "n < 2 ^ k \<Longrightarrow> bit_length n \<le> k"
proof (induction k arbitrary: n)
  case 0
  then show ?case by (simp add: bit_length_0)
next
  case (Suc k)
  show ?case
  proof (cases "n = 0")
    case True
    then show ?thesis by (simp add: bit_length_0)
  next
    case False
    have "n div 2 < 2 ^ k" using Suc.prems by simp
    then have "bit_length (n div 2) \<le> k" by (rule Suc.IH)
    then show ?thesis using False by (simp add: bit_length_pos)
  qed
qed

lemma bit_length_ge: "2 ^ k \<le> n \<Longrightarrow> Suc k \<le> bit_length n"
proof (induction k arbitrary: n)
  case 0
  then show ?case by (simp add: bit_length_pos)
next
  case (Suc k)
  have "2 ^ k \<le> n div 2" using Suc.prems by simp
  then have "Suc k \<le> bit_length (n div 2)" by (rule Suc.IH)
  moreover have "0 < n" using Suc.prems by (cases "n = 0") simp_all
  ultimately show ?case by (simp add: bit_length_pos)
qed

text \<open>The number of binary digits of a number between two powers of 2.\<close>

lemma bit_length_eq: "2 ^ k \<le> n \<Longrightarrow> n < 2 ^ Suc k \<Longrightarrow> bit_length n = Suc k"
  using bit_length_le [of n "Suc k"] bit_length_ge [of k n] by simp

lemma bit_length_floor:
  fixes x :: rat
  assumes "2 ^ k \<le> x" and "x < 2 ^ Suc k"
  shows "bit_length (nat \<lfloor>x\<rfloor>) = Suc k"
proof (rule bit_length_eq)
  have "(2::int) ^ k \<le> \<lfloor>x\<rfloor>" using assms(1) by (simp add: le_floor_iff)
  then show "2 ^ k \<le> nat \<lfloor>x\<rfloor>" by (simp add: le_nat_iff)
  have "\<lfloor>x\<rfloor> < (2::int) ^ Suc k" using assms(2) by (simp add: floor_less_iff)
  then show "nat \<lfloor>x\<rfloor> < 2 ^ Suc k"
    by (cases "0 \<le> \<lfloor>x\<rfloor>") (simp_all add: nat_less_iff)
qed

lemma floor_rat_numeral: "\<lfloor>numeral a / numeral b :: rat\<rfloor> = numeral a div numeral b"
  using floor_divide_of_int_eq [of "numeral a" "numeral b", where ?'a = rat] by simp

lemma round_half_even_of_int: "round_half_even (of_int z) = z"
  by (simp add: round_half_even_def)

text \<open>A double is rounded to itself: the multiples \<open>m * 2^k\<close> of \<open>2^-1074\<close> with
  \<open>m < 2^53\<close>, among them the integers below \<open>2^53\<close>.\<close>

lemma nearest_double_exact:
  assumes "m < 2 ^ 53"
  shows "nearest_double (of_nat m * 2 ^ k / 2 ^ 1074) = of_nat m * 2 ^ k / 2 ^ 1074"
proof -
  let ?R = "of_nat m * 2 ^ k / 2 ^ 1074 * 2 ^ 1074 :: rat"
  have R: "?R = of_nat (m * 2 ^ k)" by simp
  have fl: "nat \<lfloor>?R\<rfloor> = m * 2 ^ k"
    by (simp only: R floor_of_nat nat_int)
  define q where "q = bit_length (m * 2 ^ k) - 53"
  have "m * 2 ^ k < 2 ^ 53 * 2 ^ k" using assms by simp
  then have "m * 2 ^ k < 2 ^ (53 + k)" by (simp only: power_add)
  then have "bit_length (m * 2 ^ k) \<le> 53 + k" by (rule bit_length_le)
  then have qk: "q \<le> k" by (simp add: q_def)
  have split: "(2::rat) ^ k = 2 ^ (k - q) * 2 ^ q"
    using qk by (simp add: power_add [symmetric])
  then have div: "?R / 2 ^ q = of_int (int (m * 2 ^ (k - q)))"
    by (simp add: R)
  have m: "round_half_even (?R / 2 ^ q) = int (m * 2 ^ (k - q))"
    by (simp only: div round_half_even_of_int)
  have "of_int (int (m * 2 ^ (k - q))) * 2 ^ q = (of_nat m * 2 ^ k :: rat)"
    using split by simp
  then show ?thesis
    unfolding nearest_double_def Let_def fl q_def [symmetric] m by (simp only:)
qed

lemma round_double_nat:
  assumes "n < 2 ^ 53"
  shows "round_double (of_nat n) = Fin (of_nat n)"
proof -
  have "nearest_double (of_nat n * 2 ^ 1074 / 2 ^ 1074) = of_nat n * 2 ^ 1074 / 2 ^ 1074"
    using assms by (rule nearest_double_exact)
  then have e: "nearest_double (of_nat n) = of_nat n" by simp
  have "(of_nat n :: rat) < of_nat (2 ^ 53)" using assms by (simp only: of_nat_less_iff)
  also have "\<dots> < 2 ^ 1024" by simp
  finally have "\<not> 2 ^ 1024 \<le> (of_nat n :: rat)" by simp
  then show ?thesis by (simp add: round_double_def e)
qed

lemma round_double_numeral:
  "numeral k < (2::nat) ^ 53 \<Longrightarrow> round_double (numeral k) = Fin (numeral k)"
  using round_double_nat [of "numeral k"] by simp

lemma round_double_0: "round_double 0 = Fin 0"
  using round_double_nat [of 0] by simp

lemma round_double_1: "round_double 1 = Fin 1"
  using round_double_nat [of 1] by simp

text \<open>A value below half of the smallest double is rounded to 0.\<close>

lemma nearest_double_tiny:
  assumes "0 \<le> r" and "r * 2 ^ 1075 < 1"
  shows "nearest_double r = 0"
proof -
  define R where "R = r * 2 ^ 1074"
  have "R * 2 < 1" using assms(2) by (simp add: R_def)
  then have h: "R < 1 / 2" by simp
  have "0 \<le> R" using assms(1) by (simp add: R_def)
  then have fl: "\<lfloor>R\<rfloor> = 0" using h by (simp add: floor_eq_iff)
  have "round_half_even R = 0"
    using h by (simp add: round_half_even_def fl)
  then show ?thesis
    unfolding nearest_double_def Let_def R_def [symmetric] fl by (simp add: bit_length_0)
qed

text \<open>The literal \<^verbatim>\<open>2.2\<close> is the double \<open>2476979795053773 / 2^50\<close>, a little above
  \<open>22 / 10\<close>.\<close>

lemma number_literal_2_2:
  "number_literal (22 / 10) = 2476979795053773 / 1125899906842624"
  "number_literal (11 / 5) = 2476979795053773 / 1125899906842624"
proof -
  have b: "bit_length (nat \<lfloor>(11 / 5 :: rat) * 2 ^ 1074\<rfloor>) = Suc 1075"
    by (rule bit_length_floor) simp_all
  have "nearest_double (11 / 5) = 2476979795053773 / 1125899906842624"
    unfolding nearest_double_def Let_def b
    by (simp add: round_half_even_def Let_def floor_rat_numeral)
  then show "number_literal (11 / 5) = 2476979795053773 / 1125899906842624"
    by (simp add: number_literal_def round_double_def)
  then show "number_literal (22 / 10) = 2476979795053773 / 1125899906842624"
    by simp
qed

section \<open>Evaluation on concrete inputs\<close>

lemmas string_defs = trim_def is_whitespace_def code_def toLowerCase_def toLowerCase_char_def
  is_upper_def is_lower_def is_alpha_def is_digit_def is_hex_digit_def

lemmas number_defs = StringToNumber_def radix_literal_def signed_decimal_def
  unsigned_decimal_def is_exponent_indicator_def mantissa_value_def exponent_value_def
  all_digits_def digits_value_def digit_value_def pow10_def
  round_double_numeral round_double_0 round_double_1

lemmas domain_defs = sanitizeDomain_def domainRegex_def is_label_char_def ascii_lower_def

lemma code_char_of: "k < 256 \<Longrightarrow> code (char_of k) = k"
  by (simp add: code_def)

lemma digits_value_snoc: "digits_value b (xs @ [c]) = digits_value b xs * b + digit_value c"
  by (simp add: digits_value_def)

lemma StringToNumber_18: "StringToNumber ''18'' = Fin 18"
  by (simp add: number_defs string_defs)

lemma StringToNumber_30: "StringToNumber ''30'' = Fin 30"
  by (simp add: number_defs string_defs)

lemma StringToNumber_abc: "StringToNumber ''abc'' = NaN"
  by (simp add: number_defs string_defs)

lemma StringToNumber_1e_400: "StringToNumber ''1e-400'' = Fin 0"
proof -
  have "nearest_double (1 / 10 ^ 400) = 0"
    by (rule nearest_double_tiny) simp_all
  then show ?thesis
    by (simp add: StringToNumber_def radix_literal_def signed_decimal_def unsigned_decimal_def
        is_exponent_indicator_def mantissa_value_def exponent_value_def all_digits_def
        digits_value_def digit_value_def pow10_def round_double_def string_defs)
qed

lemma sanitizeDomain_example: "sanitizeDomain (JStr ''example.com'') = Some ''example.com''"
  by (simp add: domain_defs string_defs)

lemma schedule_minutes_0900: "schedule_minutes (JStr ''09:00'') = Inr (Fin 540)"
  by (simp add: schedule_minutes_def number_defs string_defs)

lemma schedule_minutes_1700: "schedule_minutes (JStr ''17:00'') = Inr (Fin 1020)"
  by (simp add: schedule_minutes_def number_defs string_defs)

lemma sanitize_example_override:
  "sanitizePerSiteOverrides P
     (JObj ObjectProto [(''example.com'', JObj ObjectProto [(''fontSize'', JNum (Fin 18))])])
   = Inr (JObj NullProto [(''example.com'', JObj NullProto [(''fontSize'', JNum (Fin 18))])])"
  by (simp add: sanitizePerSiteOverrides_def parse_overrides_def sanitizeDomain_example forbidden_key_def
      override_fields_def color_field_def flag_field_def number_field_def mode_field_def
      sanitizeFontSize_def sanitizeNumericRange_def)

lemma validate_override_record:
  "validateSettingsObject P override_record DEFAULT_SETTINGS = Inr override_record_validated"
  by (simp add: validateSettingsObject_def js_not_def override_record_def DEFAULT_SETTINGS_def
      override_record_validated_def sanitize_example_override validated_color_def
      validated_flag_def validated_number_def validated_schedule_def read_prop_def
      sanitizeHexColor_def default_param_def sanitizeFontSize_def sanitizeLineHeight_def
      sanitizeNumericRange_def sanitizeColorBlindMode_def sanitizeDomainList_def
      or_default_def default_schedule_def)

section \<open>Idempotence of validateSettingsObject\<close>

subsection \<open>Fixed points of the field sanitizers\<close>

lemma toLowerCase_char_idem: "toLowerCase_char (toLowerCase_char c) = toLowerCase_char c"
  by (auto simp: toLowerCase_char_def is_upper_def code_def)

lemma toLowerCase_idem: "toLowerCase (toLowerCase s) = toLowerCase s"
  by (simp add: toLowerCase_def toLowerCase_char_idem)

lemma is_hex_digit_lower: "is_hex_digit c \<Longrightarrow> is_hex_digit (toLowerCase_char c)"
  by (auto simp: toLowerCase_char_def is_upper_def is_hex_digit_def is_digit_def code_def)

lemma toLowerCase_char_hash: "toLowerCase_char (CHR ''#'') = CHR ''#''"
  by (simp add: toLowerCase_char_def is_upper_def code_def)

lemma hexRegex_lower: "hexRegex s \<Longrightarrow> hexRegex (toLowerCase s)"
  by (cases s)
    (auto simp: hexRegex_def toLowerCase_def toLowerCase_char_hash list_all_iff
      is_hex_digit_lower)

lemma sanitizeHexColor_idem:
  assumes "hexRegex d" and "toLowerCase d = d"
  shows "sanitizeHexColor (sanitizeHexColor c (JStr d)) (JStr d) = sanitizeHexColor c (JStr d)"
  using assms
  by (cases c)
    (auto simp: sanitizeHexColor_def default_param_def hexRegex_lower toLowerCase_idem)

lemma sanitizeNumericRange_idem:
  assumes "sanitizeNumericRange v mn mx d = Inr x" and "mn \<le> d" and "d \<le> mx"
  shows "sanitizeNumericRange (JNum (Fin x)) mn mx d = Inr x"
  using assms
  by (auto simp: sanitizeNumericRange_def split: if_splits sum.splits jsnum.splits)

lemma sanitizeColorBlindMode_idem:
  "sanitizeColorBlindMode (JStr (sanitizeColorBlindMode m)) = sanitizeColorBlindMode m"
  by (cases m) (auto simp: sanitizeColorBlindMode_def validModes_def)

lemma sanitizeTimeString_idem:
  assumes "timeRegex d"
  shows "sanitizeTimeString (sanitizeTimeString t (JStr d)) (JStr d) = sanitizeTimeString t (JStr d)"
  using assms by (cases t) (auto simp: sanitizeTimeString_def default_param_def)

subsection \<open>Domains are fixed points\<close>

lemma is_whitespace_lower: "is_whitespace (toLowerCase_char c) = is_whitespace c"
  by (auto simp: toLowerCase_char_def is_upper_def is_whitespace_def code_def)

lemma dropWhile_whitespace_lower:
  "dropWhile is_whitespace (toLowerCase s) = toLowerCase (dropWhile is_whitespace s)"
  by (induction s) (auto simp: toLowerCase_def is_whitespace_lower)

lemma trim_lower: "trim (toLowerCase s) = toLowerCase (trim s)"
proof -
  have r: "rev (toLowerCase s) = toLowerCase (rev s)" for s
    by (simp add: toLowerCase_def rev_map)
  show ?thesis
    by (simp only: trim_def dropWhile_whitespace_lower r)
qed

lemma dropWhile_self: "xs = [] \<or> \<not> P (hd xs) \<Longrightarrow> dropWhile P xs = xs"
  by (cases xs) auto

lemma trim_idem: "trim (trim s) = trim s"
proof -
  let ?a = "dropWhile is_whitespace s"
  let ?b = "dropWhile is_whitespace (rev ?a)"
  have b: "?b = [] \<or> \<not> is_whitespace (hd ?b)"
    using hd_dropWhile [of is_whitespace "rev ?a"] by blast
  have a: "?a = [] \<or> \<not> is_whitespace (hd ?a)"
    using hd_dropWhile [of is_whitespace s] by blast
  have l: "?b = [] \<or> \<not> is_whitespace (last ?b)"
  proof (cases "?b = []")
    case True
    then show ?thesis by simp
  next
    case False
    have ne: "?a \<noteq> []"
    proof
      assume "?a = []"
      then have "?b = dropWhile is_whitespace (rev [])" by (simp only:)
      with False show False by simp
    qed
    obtain ys where "rev ?a = ys @ ?b"
      by (metis takeWhile_dropWhile_id)
    then have "last ?b = last (rev ?a)" using False by (metis last_appendR)
    also have "\<dots> = hd ?a" using ne by (simp only: last_rev)
    finally show ?thesis using a ne by metis
  qed
  have "dropWhile is_whitespace (rev ?b) = rev ?b"
  proof (rule dropWhile_self)
    show "rev ?b = [] \<or> \<not> is_whitespace (hd (rev ?b))"
      using l by (cases "?b = []") (simp_all add: hd_rev)
  qed
  moreover have "dropWhile is_whitespace ?b = ?b"
    by (rule dropWhile_self) (rule b)
  ultimately show ?thesis
    by (simp add: trim_def)
qed

lemma sanitizeDomain_idem:
  assumes "sanitizeDomain v = Some d"
  shows "sanitizeDomain (JStr d) = Some d"
proof -
  from assms obtain s where v: "v = JStr s" and d: "d = toLowerCase (trim s)"
    and ok: "d \<noteq> []" "\<not> 253 < length d" "domainRegex d"
    by (auto simp: sanitizeDomain_def Let_def split: jsval.splits if_splits)
  have "toLowerCase (trim d) = d"
    by (simp add: d trim_lower trim_idem toLowerCase_idem)
  then show ?thesis
    using ok by (simp add: sanitizeDomain_def)
qed

lemma map_filter_fixed:
  "\<forall>d \<in> set ds. f (g d) = Some d \<Longrightarrow> List.map_filter f (map g ds) = ds"
  by (induction ds) (auto simp: List.map_filter_simps)

lemma map_filter_elements: "y \<in> set (List.map_filter f xs) \<Longrightarrow> \<exists>x. f x = Some y"
  by (induction xs) (auto split: option.splits)

lemma sanitizeDomainList_elements:
  assumes "d \<in> set (sanitizeDomainList x)"
  shows "\<exists>v. sanitizeDomain v = Some d"
proof (cases x)
  case (JStr s)
  with assms have "d \<in> set (List.map_filter (\<lambda>d. sanitizeDomain (JStr d)) (split_lines s))"
    by (auto simp: sanitizeDomainList_def dest: in_set_takeD)
  then show ?thesis by (auto dest: map_filter_elements)
next
  case (JArr xs)
  with assms have "d \<in> set (List.map_filter sanitizeDomain xs)"
    by (auto simp: sanitizeDomainList_def dest: in_set_takeD)
  then show ?thesis by (rule map_filter_elements)
qed (use assms in \<open>simp_all add: sanitizeDomainList_def\<close>)

lemma sanitizeDomainList_length: "length (sanitizeDomainList x) \<le> 1000"
  by (auto simp: sanitizeDomainList_def split: jsval.splits)

lemma sanitizeDomainList_idem:
  "sanitizeDomainList (JArr (map JStr (sanitizeDomainList x))) = sanitizeDomainList x"
proof -
  have "\<forall>d \<in> set (sanitizeDomainList x). sanitizeDomain (JStr d) = Some d"
    using sanitizeDomainList_elements sanitizeDomain_idem by blast
  then have "List.map_filter sanitizeDomain (map JStr (sanitizeDomainList x))
      = sanitizeDomainList x"
    by (rule map_filter_fixed)
  then show ?thesis
    using sanitizeDomainList_length [of x]
    by (simp add: sanitizeDomainList_def [of "JArr (map JStr (sanitizeDomainList x))"])
qed

subsection \<open>The second pass on a record without overrides\<close>

lemma validated_color_defaults:
  "validated_color r DEFAULT_SETTINGS ''color1''
     = Inr [(''color1'', sanitizeHexColor (get_prop r ''color1'') (JStr ''#00ffff''))]"
  "validated_color r DEFAULT_SETTINGS ''color2''
     = Inr [(''color2'', sanitizeHexColor (get_prop r ''color2'') (JStr ''#00ff00''))]"
  "validated_color r DEFAULT_SETTINGS ''color3''
     = Inr [(''color3'', sanitizeHexColor (get_prop r ''color3'') (JStr ''#ff00ff''))]"
  "validated_color r DEFAULT_SETTINGS ''color4''
     = Inr [(''color4'', sanitizeHexColor (get_prop r ''color4'') (JStr ''#ff0000''))]"
  by (simp_all add: validated_color_def read_prop_def DEFAULT_SETTINGS_def)

lemma validated_schedule_defaults:
  "validated_schedule r DEFAULT_SETTINGS = Inr [(''schedule'', first_pass_schedule r)]"
  by (simp add: validated_schedule_def first_pass_schedule_def read_prop_def
      DEFAULT_SETTINGS_def or_default_def default_schedule_def Let_def)

lemma default_colors_fixed:
  "hexRegex ''#00ffff''" "toLowerCase ''#00ffff'' = ''#00ffff''"
  "hexRegex ''#00ff00''" "toLowerCase ''#00ff00'' = ''#00ff00''"
  "hexRegex ''#ff00ff''" "toLowerCase ''#ff00ff'' = ''#ff00ff''"
  "hexRegex ''#ff0000''" "toLowerCase ''#ff0000'' = ''#ff0000''"
  by (simp_all add: hexRegex_def string_defs)

lemma first_pass_schedule_fixed:
  "first_pass_schedule (JObj ObjectProto [(''schedule'', first_pass_schedule r)])
     = first_pass_schedule r"
proof -
  have t: "timeRegex ''20:00''" "timeRegex ''06:00''"
    by (simp_all add: timeRegex_def is_digit_def code_def)
  have d: "sanitizeTimeString (JStr ''20:00'') (JStr ''20:00'') = JStr ''20:00''"
    "sanitizeTimeString (JStr ''06:00'') (JStr ''06:00'') = JStr ''06:00''"
    using t by (simp_all add: sanitizeTimeString_def default_param_def)
  show ?thesis
    by (simp add: first_pass_schedule_def Let_def default_schedule_def d
        sanitizeTimeString_idem [OF t(1)] sanitizeTimeString_idem [OF t(2)])
qed

lemma first_pass_schedule_only_reads_schedule:
  "get_prop w ''schedule'' = get_prop w' ''schedule'' \<Longrightarrow>
     first_pass_schedule w = first_pass_schedule w'"
  by (simp add: first_pass_schedule_def)

text \<open>
  On the defaults of \<^verbatim>\<open>config.js\<close>, a settings object whose validated record has no
  per-site override is validated to a fixed point: the second pass returns the record
  of the first.
\<close>

lemma validateSettingsObject_idempotent_without_overrides:
  assumes "validateSettingsObject P r DEFAULT_SETTINGS = Inr v"
    and "truthy r" and "typeof r = ''object''"
    and "get_prop v ''perSiteOverrides'' = JObj NullProto []"
  shows "validateSettingsObject P v DEFAULT_SETTINGS = Inr v"
proof -
  from assms(1-3) obtain x y safe where
    fx: "sanitizeFontSize (get_prop r ''fontSize'') = Inr x"
    and fy: "sanitizeLineHeight (get_prop r ''lineHeight'') = Inr y"
    and v: "v = JObj ObjectProto
       [(''color1'', sanitizeHexColor (get_prop r ''color1'') (JStr ''#00ffff'')),
        (''color2'', sanitizeHexColor (get_prop r ''color2'') (JStr ''#00ff00'')),
        (''color3'', sanitizeHexColor (get_prop r ''color3'') (JStr ''#ff00ff'')),
        (''color4'', sanitizeHexColor (get_prop r ''color4'') (JStr ''#ff0000'')),
        (''textShadow'', JBool (truthy (get_prop r ''textShadow''))),
        (''highContrast'', JBool (truthy (get_prop r ''highContrast''))),
        (''focusOutline'', JBool (truthy (get_prop r ''focusOutline''))),
        (''reducedMotion'', JBool (truthy (get_prop r ''reducedMotion''))),
        (''fontSize'', JNum (Fin x)),
        (''lineHeight'', JNum (Fin y)),
        (''colorBlindMode'', JStr (sanitizeColorBlindMode (get_prop r ''colorBlindMode''))),
        (''blacklist'',
         JArr (map JStr (sanitizeDomainList (or_default (get_prop r ''blacklist'') (JArr []))))),
        (''perSiteOverrides'', safe),
        (''debugMode'', JBool (truthy (get_prop r ''debugMode''))),
        (''schedule'', first_pass_schedule r)]"
    by (auto simp: validateSettingsObject_def js_not_def validated_color_defaults
        validated_flag_def validated_number_def validated_schedule_defaults
        split: sum.splits)
  have safe: "safe = JObj NullProto []"
    using assms(4) by (simp add: v)
  have x: "sanitizeFontSize (JNum (Fin x)) = Inr x"
    using fx sanitizeNumericRange_idem [of "get_prop r ''fontSize''" 12 24 16 x]
    by (simp add: sanitizeFontSize_def)
  have y: "sanitizeLineHeight (JNum (Fin y)) = Inr y"
    using fy
      sanitizeNumericRange_idem
        [of "get_prop r ''lineHeight''" 1 "number_literal (22 / 10)" "15 / 10" y]
    by (simp add: sanitizeLineHeight_def number_literal_2_2)
  have o: "sanitizePerSiteOverrides P (or_default (JObj NullProto []) (JObj ObjectProto []))
      = Inr (JObj NullProto [])"
    by (simp add: sanitizePerSiteOverrides_def parse_overrides_def or_default_def)
  have b: "or_default (JArr ds) (JArr []) = JArr ds" for ds
    by (simp add: or_default_def)
  have s: "first_pass_schedule v = first_pass_schedule r"
  proof -
    have "first_pass_schedule v
        = first_pass_schedule (JObj ObjectProto [(''schedule'', first_pass_schedule r)])"
      by (rule first_pass_schedule_only_reads_schedule) (simp add: v)
    then show ?thesis by (simp only: first_pass_schedule_fixed)
  qed
  have g: "get_prop v ''color1'' = sanitizeHexColor (get_prop r ''color1'') (JStr ''#00ffff'')"
    "get_prop v ''color2'' = sanitizeHexColor (get_prop r ''color2'') (JStr ''#00ff00'')"
    "get_prop v ''color3'' = sanitizeHexColor (get_prop r ''color3'') (JStr ''#ff00ff'')"
    "get_prop v ''color4'' = sanitizeHexColor (get_prop r ''color4'') (JStr ''#ff0000'')"
    "get_prop v ''textShadow'' = JBool (truthy (get_prop r ''textShadow''))"
    "get_prop v ''highContrast'' = JBool (truthy (get_prop r ''highContrast''))"
    "get_prop v ''focusOutline'' = JBool (truthy (get_prop r ''focusOutline''))"
    "get_prop v ''reducedMotion'' = JBool (truthy (get_prop r ''reducedMotion''))"
    "get_prop v ''fontSize'' = JNum (Fin x)"
    "get_prop v ''lineHeight'' = JNum (Fin y)"
    "get_prop v ''colorBlindMode'' = JStr (sanitizeColorBlindMode (get_prop r ''colorBlindMode''))"
    "get_prop v ''blacklist''
       = JArr (map JStr (sanitizeDomainList (or_default (get_prop r ''blacklist'') (JArr []))))"
    "get_prop v ''perSiteOverrides'' = JObj NullProto []"
    "get_prop v ''debugMode'' = JBool (truthy (get_prop r ''debugMode''))"
    by (simp_all add: v safe)
  have tv: "truthy v" "typeof v = ''object''"
    by (simp_all add: v)
  have "validateSettingsObject P v DEFAULT_SETTINGS = Inr (JObj ObjectProto
       [(''color1'', sanitizeHexColor (get_prop r ''color1'') (JStr ''#00ffff'')),
        (''color2'', sanitizeHexColor (get_prop r ''color2'') (JStr ''#00ff00'')),
        (''color3'', sanitizeHexColor (get_prop r ''color3'') (JStr ''#ff00ff'')),
        (''color4'', sanitizeHexColor (get_prop r ''color4'') (JStr ''#ff0000'')),
        (''textShadow'', JBool (truthy (get_prop r ''textShadow''))),
        (''highContrast'', JBool (truthy (get_prop r ''highContrast''))),
        (''focusOutline'', JBool (truthy (get_prop r ''focusOutline''))),
        (''reducedMotion'', JBool (truthy (get_prop r ''reducedMotion''))),
        (''fontSize'', JNum (Fin x)),
        (''lineHeight'', JNum (Fin y)),
        (''colorBlindMode'', JStr (sanitizeColorBlindMode (get_prop r ''colorBlindMode''))),
        (''blacklist'',
         JArr (map JStr (sanitizeDomainList (or_default (get_prop r ''blacklist'') (JArr []))))),
        (''perSiteOverrides'', JObj NullProto []),
        (''debugMode'', JBool (truthy (get_prop r ''debugMode''))),
        (''schedule'', first_pass_schedule r)])"
    unfolding validateSettingsObject_def
    by (simp only: tv js_not_def validated_color_defaults validated_flag_def
        validated_number_def validated_schedule_defaults g s x y o b
        sanitizeHexColor_idem default_colors_fixed sanitizeColorBlindMode_idem
        sanitizeDomainList_idem truthy.simps)
      simp
  then show ?thesis
    by (simp only: v safe)
qed

text \<open>
  Claim C1: for every settings record \<open>r\<close>, validating the validated record gives the
  validated record again. The code does not do this. Validating
  \<^verbatim>\<open>{perSiteOverrides: {"example.com": {fontSize: 18}}}\<close> against the defaults of
  \<^verbatim>\<open>config.js\<close> returns a record whose \<^verbatim>\<open>perSiteOverrides\<close> is a map made by
  \<^verbatim>\<open>Object.create(null)\<close>; validating that record again reaches
  \<^verbatim>\<open>parsed.hasOwnProperty(key)\<close> on this map, which has no such method, and throws a
  TypeError. The theorem evaluates both passes, for every \<^verbatim>\<open>JSON.parse\<close>. Without a
  surviving override the second pass returns the record of the first, as the lemma
  above shows.
\<close>

theorem validateSettingsObject_second_pass_throws:
  "validateSettingsObject P override_record DEFAULT_SETTINGS = Inr override_record_validated
   \<and> validateSettingsObject P override_record_validated DEFAULT_SETTINGS = Inl TypeError"
  by (simp add: validate_override_record)
    (simp add: validateSettingsObject_def js_not_def override_record_validated_def DEFAULT_SETTINGS_def
      sanitizePerSiteOverrides_def parse_overrides_def validated_color_def validated_flag_def validated_number_def
      read_prop_def sanitizeFontSize_def sanitizeLineHeight_def sanitizeNumericRange_def
      number_literal_2_2 or_default_def)

section \<open>The sanitizers never raise\<close>

text \<open>
  Claim C2: every sanitizer, \<^verbatim>\<open>sanitizePerSiteOverrides\<close> in particular, returns
  normally on every input. The code raises a TypeError on a map without prototype
  that has a key (the very value the function returns, which the options page passes
  back in through \<^verbatim>\<open>validateSettingsObject\<close>), and on an object with an own
  property \<^verbatim>\<open>hasOwnProperty\<close>, as \<^verbatim>\<open>JSON.parse('{"hasOwnProperty":1}')\<close> gives:
  the loop calls \<^verbatim>\<open>parsed.hasOwnProperty(key)\<close>. It also raises when
  \<^verbatim>\<open>Number(value)\<close> cannot convert an object to a primitive, as for the font size
  \<^verbatim>\<open>{"toString": 1}\<close>. The theorem evaluates the functions on these inputs, for
  every \<^verbatim>\<open>JSON.parse\<close>.
\<close>

theorem sanitizePerSiteOverrides_throws:
  "sanitizePerSiteOverrides P
     (JObj NullProto [(''example.com'', JObj NullProto [(''fontSize'', JNum (Fin 18))])])
   = Inl TypeError
   \<and> sanitizePerSiteOverrides P (JObj ObjectProto [(''hasOwnProperty'', JNum (Fin 1))])
   = Inl TypeError
   \<and> sanitizeFontSize (JObj ObjectProto [(''toString'', JNum (Fin 1))]) = Inl TypeError"
  by (simp add: sanitizePerSiteOverrides_def parse_overrides_def sanitizeFontSize_def
      sanitizeNumericRange_def)

section \<open>The schedule gate on the two paths\<close>

text \<open>
  Claim C3: the load path and the change-notification path compute
  \<^verbatim>\<open>shouldApply\<close> alike, the schedule gate included. The change path has no
  schedule gate: with the extension enabled, the host not blacklisted and a schedule
  from 09:00 to 17:00, at 18:00 the load path decides not to apply and the change path
  decides to apply.
\<close>

theorem change_path_skips_schedule:
  "load_shouldApply True False (schedule_settings ''09:00'' ''17:00'') 18 0 = Inr False
   \<and> change_shouldApply True False (schedule_settings ''09:00'' ''17:00'') 18 0 = Inr True"
  by (simp add: load_shouldApply_def change_shouldApply_def schedule_settings_def
      schedule_minutes_0900 schedule_minutes_1700 js_ge_def)

section \<open>Clamping numbers\<close>

text \<open>
  Claim C4, as stated: \<^verbatim>\<open>sanitizeNumericRange\<close> returns the default for every value
  that is not a number and not a numeric string. The code coerces with
  \<^verbatim>\<open>Number(value)\<close>, and \<^verbatim>\<open>true\<close> coerces to 1: with the bounds of the font size
  the result is the lower bound 12, not the default 16.
\<close>

theorem sanitizeNumericRange_boolean_counterexample:
  "sanitizeNumericRange (JBool True) 12 24 16 = Inr 12
   \<and> sanitizeNumericRange (JBool True) 12 24 16 \<noteq> Inr 16"
  by (simp add: sanitizeNumericRange_def)

text \<open>
  Claim C4, amended: \<^verbatim>\<open>sanitizeNumericRange\<close> returns the default when the value is
  \<^verbatim>\<open>null\<close>, \<^verbatim>\<open>undefined\<close> or the empty string, and when \<^verbatim>\<open>Number(value)\<close> is
  \<^verbatim>\<open>NaN\<close> or an infinity; when \<^verbatim>\<open>Number(value)\<close> is a finite number \<open>x\<close> it
  returns \<open>max min (min max x)\<close>, which lies between the bounds when \<open>min \<le> max\<close>.
  A number is clamped, and so is a boolean, as 1 or 0. \<^verbatim>\<open>Number(value)\<close> is a double:
  the text \<^verbatim>\<open>1e-400\<close> is the number 0.
\<close>

theorem sanitizeNumericRange_coerces:
  "(v = JNull \<or> v = JUndefined \<or> v = JStr [] \<longrightarrow> sanitizeNumericRange v mn mx d = Inr d)
   \<and> (ToNumber v = Inr NaN \<or> ToNumber v = Inr PosInf \<or> ToNumber v = Inr NegInf
        \<longrightarrow> sanitizeNumericRange v mn mx d = Inr d)
   \<and> (v \<noteq> JNull \<and> v \<noteq> JUndefined \<and> v \<noteq> JStr [] \<and> ToNumber v = Inr (Fin x)
        \<longrightarrow> sanitizeNumericRange v mn mx d = Inr (max mn (min mx x)))
   \<and> (v \<noteq> JNull \<and> v \<noteq> JUndefined \<and> v \<noteq> JStr [] \<and> ToNumber v = Inr (Fin x) \<and> mn \<le> mx
        \<longrightarrow> (\<exists>r. sanitizeNumericRange v mn mx d = Inr r \<and> mn \<le> r \<and> r \<le> mx))
   \<and> sanitizeNumericRange (JNum (Fin x)) mn mx d = Inr (max mn (min mx x))
   \<and> sanitizeNumericRange (JBool b) mn mx d = Inr (max mn (min mx (if b then 1 else 0)))"
  by (auto simp: sanitizeNumericRange_def)

theorem sanitizeNumericRange_coerces_witness:
  "sanitizeNumericRange JNull 12 24 16 = Inr 16
   \<and> sanitizeNumericRange (JStr ''abc'') 12 24 16 = Inr 16
   \<and> sanitizeNumericRange (JStr ''18'') 12 24 16 = Inr 18
   \<and> sanitizeNumericRange (JStr ''30'') 12 24 16 = Inr 24
   \<and> (\<exists>r. sanitizeNumericRange (JStr ''30'') 12 24 16 = Inr r \<and> 12 \<le> r \<and> r \<le> 24)
   \<and> sanitizeNumericRange (JStr ''1e-400'') 0 10 5 = Inr 0"
  using sanitizeNumericRange_coerces [where v = JNull and mn = 12 and mx = 24 and d = 16]
    sanitizeNumericRange_coerces [where v = "JStr ''abc''" and mn = 12 and mx = 24 and d = 16]
    sanitizeNumericRange_coerces
      [where v = "JStr ''18''" and mn = 12 and mx = 24 and d = 16 and x = 18]
    sanitizeNumericRange_coerces
      [where v = "JStr ''30''" and mn = 12 and mx = 24 and d = 16 and x = 30]
    sanitizeNumericRange_coerces
      [where v = "JStr ''1e-400''" and mn = 0 and mx = 10 and d = 5 and x = 0]
  by (simp add: StringToNumber_18 StringToNumber_abc StringToNumber_30 StringToNumber_1e_400)

section \<open>The schedule window\<close>

lemma digit_bounds: "is_digit c \<Longrightarrow> code c - 48 \<le> 9"
  by (auto simp: is_digit_def)

lemma StringToNumber_two_digits:
  assumes "is_digit a" "is_digit b"
  shows "StringToNumber [a, b] = Fin (of_nat ((code a - 48) * 10 + (code b - 48)))"
proof -
  have ws: "\<not> is_whitespace a" "\<not> is_whitespace b"
    using assms by (auto simp: is_digit_def is_whitespace_def)
  have tr: "trim [a, b] = [a, b]"
    using ws by (simp add: trim_def)
  have ne: "a \<noteq> CHR ''+''" "a \<noteq> CHR ''-''" "a \<noteq> CHR ''.''" "b \<noteq> CHR ''.''"
    "\<not> is_exponent_indicator a" "\<not> is_exponent_indicator b"
    "b \<noteq> CHR ''x''" "b \<noteq> CHR ''X''" "b \<noteq> CHR ''o''" "b \<noteq> CHR ''O''"
    "b \<noteq> CHR ''b''" "b \<noteq> CHR ''B''"
    using assms by (auto simp: is_digit_def code_def is_exponent_indicator_def)
  have rl: "radix_literal [a, b] = None"
    using ne by (simp add: radix_literal_def)
  have mv: "mantissa_value [a, b] = Some ((code a - 48) * 10 + (code b - 48), 0)"
    using ne assms by (simp add: mantissa_value_def all_digits_def digits_value_def digit_value_def)
  have ud: "unsigned_decimal [a, b] = Some (of_nat ((code a - 48) * 10 + (code b - 48)))"
    using ne mv by (simp add: unsigned_decimal_def pow10_def)
  have bound: "(code a - 48) * 10 + (code b - 48) \<le> 99"
    using digit_bounds [OF assms(1)] digit_bounds [OF assms(2)] by simp
  have "round_double (of_nat ((code a - 48) * 10 + (code b - 48)))
        = Fin (of_nat ((code a - 48) * 10 + (code b - 48)))"
    by (rule round_double_nat) (use bound in simp)
  then show ?thesis
    using tr rl ud ne by (simp add: StringToNumber_def signed_decimal_def)
qed

lemma timeRegex_shape:
  assumes "timeRegex s"
  obtains h1 h2 m1 m2 where "s = [h1, h2, CHR '':'', m1, m2]"
    "is_digit h1" "is_digit h2" "is_digit m1" "is_digit m2"
  using assms
  by (auto simp: timeRegex_def is_digit_def code_def split: list.splits)

lemma schedule_minutes_valid:
  assumes "timeRegex s"
  shows "schedule_minutes (JStr s) = Inr (Fin (of_nat (minutes_since_midnight s)))"
proof -
  from assms obtain h1 h2 m1 m2 where s: "s = [h1, h2, CHR '':'', m1, m2]"
    and d: "is_digit h1" "is_digit h2" "is_digit m1" "is_digit m2"
    by (rule timeRegex_shape)
  have nc: "h1 \<noteq> CHR '':''" "h2 \<noteq> CHR '':''" "m1 \<noteq> CHR '':''" "m2 \<noteq> CHR '':''"
    using d by (auto simp: is_digit_def code_def)
  have sp: "split_on (CHR '':'') s = [[h1, h2], [m1, m2]]"
    using nc by (simp add: s)
  let ?H = "(code h1 - 48) * 10 + (code h2 - 48)"
  let ?M = "(code m1 - 48) * 10 + (code m2 - 48)"
  have H: "?H \<le> 99" using digit_bounds [OF d(1)] digit_bounds [OF d(2)] by simp
  have M: "?M \<le> 99" using digit_bounds [OF d(3)] digit_bounds [OF d(4)] by simp
  have r1: "round_double (of_nat ?H * 60) = Fin (of_nat ?H * 60)"
    using round_double_nat [of "?H * 60"] H by simp
  have r2: "round_double (of_nat ?H * 60 + of_nat ?M) = Fin (of_nat ?H * 60 + of_nat ?M)"
    using round_double_nat [of "?H * 60 + ?M"] H M by simp
  show ?thesis
    using sp r1 r2
    by (simp add: schedule_minutes_def StringToNumber_two_digits d minutes_since_midnight_def s)
qed

lemma timeRegex_2000: "timeRegex ''20:00''"
  by (simp add: timeRegex_def is_digit_def code_def)

lemma timeRegex_0600: "timeRegex ''06:00''"
  by (simp add: timeRegex_def is_digit_def code_def)

text \<open>
  Claim C6: on a load with the extension enabled, the host not blacklisted and
  \<^verbatim>\<open>schedule.enabled\<close> true, with bounds that are times \<^verbatim>\<open>HH:MM\<close>, the styles
  are applied exactly when the time of day lies in the window: between start and end
  when \<open>start < end\<close>, at or after start or before end otherwise (the overnight
  window), all in minutes since midnight.
\<close>

theorem schedule_window:
  assumes "get_prop finalSettings ''schedule'' = schedule"
    and "truthy (get_prop schedule ''enabled'')"
    and "get_prop schedule ''start'' = JStr start"
    and "get_prop schedule ''end'' = JStr finish"
    and "timeRegex start" and "timeRegex finish"
  shows "load_shouldApply True False finalSettings hours minutes =
     Inr (in_schedule_window (minutes_since_midnight start) (minutes_since_midnight finish)
            (hours * 60 + minutes))"
proof -
  have "truthy schedule"
    using assms(3) by (cases schedule) simp_all
  then show ?thesis
    using assms
    by (auto simp: load_shouldApply_def schedule_minutes_valid in_schedule_window_def js_ge_def
        del: of_nat_add of_nat_mult)
qed

theorem schedule_window_witness:
  "load_shouldApply True False (schedule_settings ''20:00'' ''06:00'') 23 0 = Inr True
   \<and> load_shouldApply True False (schedule_settings ''20:00'' ''06:00'') 12 0 = Inr False"
  using schedule_window [where finalSettings = "schedule_settings ''20:00'' ''06:00''"
      and schedule = "JObj ObjectProto [(''enabled'', JBool True), (''start'', JStr ''20:00''), (''end'', JStr ''06:00'')]"
      and start = "''20:00''" and finish = "''06:00''" and hours = 23 and minutes = 0]
    schedule_window [where finalSettings = "schedule_settings ''20:00'' ''06:00''"
      and schedule = "JObj ObjectProto [(''enabled'', JBool True), (''start'', JStr ''20:00''), (''end'', JStr ''06:00'')]"
      and start = "''20:00''" and finish = "''06:00''" and hours = 12 and minutes = 0]
  by (simp add: schedule_settings_def timeRegex_2000 timeRegex_0600 in_schedule_window_def
      minutes_since_midnight_def code_def)

section \<open>Verifying a signed envelope\<close>

subsection \<open>Two texts with one fallback checksum\<close>

lemma simple_hash_collision: "simple_hash (xs @ ''Aa'' @ ys) = simple_hash (xs @ ''BB'' @ ys)"
proof -
  have "foldl (\<lambda>hash c. (push_bit 5 hash - hash) + of_nat (code c)) (h :: 32 word) ''Aa''
      = foldl (\<lambda>hash c. (push_bit 5 hash - hash) + of_nat (code c)) h ''BB''" for h
    by (simp add: code_def push_bit_eq_mult algebra_simps)
  then show ?thesis by (simp only: simple_hash_def foldl_append)
qed

lemma stringify_signed_data:
  "stringify N signed_data
     = (CHR ''{'' # QuoteJSONString ''color1'' @ CHR '':'' # char_of (34 :: nat) # ''#00ff'')
       @ ''Aa'' @ [char_of (34 :: nat), CHR ''}'']"
  "stringify N tampered_data
     = (CHR ''{'' # QuoteJSONString ''color1'' @ CHR '':'' # char_of (34 :: nat) # ''#00ff'')
       @ ''BB'' @ [char_of (34 :: nat), CHR ''}'']"
  by (simp_all add: stringify_def signed_data_def tampered_data_def QuoteJSONString_def
      json_escape_def code_def)

lemma fallback_checksum_collision:
  "calculateChecksum (stringify N) None tampered_data
     = calculateChecksum (stringify N) None signed_data"
  unfolding calculateChecksum_def Let_def stringify_signed_data
  by (simp only: simple_hash_collision option.case)

lemma stringify_padded_data: "stringify N padded_data = stringify N plain_data"
  by (simp add: stringify_def padded_data_def plain_data_def)

lemma verifySettings_replace_data:
  "verifySettings S H (replace_data (signSettings S H r) r') =
     (if truthy r' \<and> calculateChecksum S H r' = calculateChecksum S H r then Inr r'
      else Inr JNull)"
  by (auto simp: verifySettings_def signSettings_def replace_data_def js_not_def Let_def)

subsection \<open>The fallback checksum of texts that differ in one code unit\<close>

lemma hex_of_nat_small: "n < 16 \<Longrightarrow> hex_of_nat n = [hex_digit n]"
  by (subst hex_of_nat.simps) (simp add: hex_digit_def)

lemma hex_of_nat_large:
  "\<not> n < 16 \<Longrightarrow> hex_of_nat n = hex_of_nat (n div 16) @ [hex_digit (n mod 16)]"
  by (subst hex_of_nat.simps) (simp add: hex_digit_def Let_def)

lemma code_hex_digit: "d < 16 \<Longrightarrow> code (hex_digit d) = (if d < 10 then 48 + d else 87 + d)"
  by (simp add: hex_digit_def code_char_of)

lemma digit_value_hex_digit: "d < 16 \<Longrightarrow> digit_value (hex_digit d) = d"
  by (simp add: digit_value_def is_digit_def is_lower_def code_hex_digit)

lemma hex_digit_not_minus: "d < 16 \<Longrightarrow> hex_digit d \<noteq> CHR ''-''"
proof
  assume "d < 16" and "hex_digit d = CHR ''-''"
  then have "code (hex_digit d) = 45" by (simp add: code_def)
  then show False using \<open>d < 16\<close> by (simp add: code_hex_digit split: if_splits)
qed

lemma hex_of_nat_value: "digits_value 16 (hex_of_nat n) = n"
proof (induction n rule: hex_of_nat.induct)
  case (1 n)
  show ?case
  proof (cases "n < 16")
    case True
    have "digits_value 16 [hex_digit n] = n"
      using digit_value_hex_digit [OF True] by (simp add: digits_value_def)
    then show ?thesis by (simp only: hex_of_nat_small [OF True])
  next
    case False
    have "digits_value 16 (hex_of_nat (n div 16)) = n div 16"
      using 1 False by simp
    then have "digits_value 16 (hex_of_nat n) = n div 16 * 16 + n mod 16"
      by (simp only: hex_of_nat_large [OF False] digits_value_snoc
          digit_value_hex_digit [of "n mod 16"] mod_less_divisor zero_less_numeral)
    then show ?thesis by simp
  qed
qed

lemma hex_of_nat_inj: "hex_of_nat a = hex_of_nat b \<Longrightarrow> a = b"
  by (metis hex_of_nat_value)

lemma hex_of_nat_no_minus: "CHR ''-'' \<notin> set (hex_of_nat n)"
proof (induction n rule: hex_of_nat.induct)
  case (1 n)
  show ?case
  proof (cases "n < 16")
    case True
    then show ?thesis
      using hex_digit_not_minus [OF True] by (simp add: hex_of_nat_small [OF True])
  next
    case False
    have "hex_digit (n mod 16) \<noteq> CHR ''-''"
      by (rule hex_digit_not_minus) simp
    moreover have "CHR ''-'' \<notin> set (hex_of_nat (n div 16))"
      using 1 False by simp
    ultimately show ?thesis
      by (simp add: hex_of_nat_large [OF False])
  qed
qed

lemma int_toString16_inj:
  assumes "int_toString16 i = int_toString16 j"
  shows "i = j"
proof -
  have m: "CHR ''-'' # xs \<noteq> hex_of_nat n" for xs n
    using hex_of_nat_no_minus [of n] by (metis list.set_intros(1))
  show ?thesis
  proof (cases "i < 0")
    case True
    show ?thesis
    proof (cases "j < 0")
      case True
      with \<open>i < 0\<close> assms have "nat (- i) = nat (- j)"
        by (simp add: int_toString16_def hex_of_nat_inj)
      then show ?thesis using True \<open>i < 0\<close> by simp
    next
      case False
      with \<open>i < 0\<close> assms m show ?thesis by (simp add: int_toString16_def)
    qed
  next
    case False
    show ?thesis
    proof (cases "j < 0")
      case True
      with False assms m [of "hex_of_nat (nat (- j))" "nat i"] show ?thesis
        by (simp add: int_toString16_def)
    next
      case j: False
      with False assms have "nat i = nat j"
        by (simp add: int_toString16_def hex_of_nat_inj)
      then show ?thesis using False j by simp
    qed
  qed
qed

lemma inverse_31: "(31 :: 32 word) * 3186588639 = 1"
  by simp

lemma mult_31_cancel:
  fixes x :: "32 word"
  assumes "x * 31 = 0"
  shows "x = 0"
proof -
  have "x * 31 * 3186588639 = x * (31 * 3186588639)" by (simp only: mult.assoc)
  also have "\<dots> = x" by (simp only: inverse_31 mult_1_right)
  finally show ?thesis using assms by simp
qed

lemma mult_31_power_cancel:
  fixes x :: "32 word"
  shows "x * 31 ^ n = 0 \<Longrightarrow> x = 0"
proof (induction n)
  case 0
  then show ?case by simp
next
  case (Suc n)
  have "x * 31 ^ n * 31 = x * 31 ^ Suc n" by (simp add: mult.assoc mult.commute)
  then have "x * 31 ^ n * 31 = 0" using Suc.prems by (simp only:)
  then have "x * 31 ^ n = 0" by (rule mult_31_cancel)
  then show ?case by (rule Suc.IH)
qed

lemma hash_fold_affine:
  "foldl (\<lambda>hash c. (push_bit 5 hash - hash) + of_nat (code c)) (h :: 32 word) ys
     = h * 31 ^ length ys
       + foldl (\<lambda>hash c. (push_bit 5 hash - hash) + of_nat (code c)) 0 ys"
proof (induction ys arbitrary: h)
  case Nil
  then show ?case by simp
next
  case (Cons y ys)
  let ?f = "\<lambda>hash c. (push_bit 5 hash - hash) + of_nat (code c) :: 32 word"
  have "foldl ?f h (y # ys) = foldl ?f (?f h y) ys" by simp
  also have "\<dots> = ?f h y * 31 ^ length ys + foldl ?f 0 ys" by (rule Cons.IH)
  finally have l: "foldl ?f h (y # ys) = ?f h y * 31 ^ length ys + foldl ?f 0 ys" .
  have "foldl ?f 0 (y # ys) = foldl ?f (?f 0 y) ys" by simp
  also have "\<dots> = ?f 0 y * 31 ^ length ys + foldl ?f 0 ys" by (rule Cons.IH)
  finally have r: "foldl ?f 0 (y # ys) = ?f 0 y * 31 ^ length ys + foldl ?f 0 ys" .
  show ?case
    unfolding l r by (simp add: push_bit_eq_mult algebra_simps)
qed

lemma word_of_code_inj:
  assumes "(of_nat (code c) :: 32 word) = of_nat (code d)"
  shows "c = d"
proof -
  have "unat (of_nat (code c) :: 32 word) = unat (of_nat (code d) :: 32 word)"
    using assms by simp
  moreover have "code c < 256" "code d < 256"
    by (simp_all add: code_def)
  then have "code c < 2 ^ 32" "code d < 2 ^ 32"
    by simp_all
  ultimately have "code c = code d"
    by (simp add: unat_of_nat)
  then show ?thesis by (simp add: code_def)
qed

text \<open>Changing one code unit of a text changes its hash.\<close>

lemma simple_hash_one_unit:
  assumes "c \<noteq> d"
  shows "simple_hash (xs @ c # ys) \<noteq> simple_hash (xs @ d # ys)"
proof
  let ?f = "\<lambda>hash c. (push_bit 5 hash - hash) + of_nat (code c) :: 32 word"
  let ?h = "simple_hash xs"
  assume "simple_hash (xs @ c # ys) = simple_hash (xs @ d # ys)"
  then have "foldl ?f (?f ?h c) ys = foldl ?f (?f ?h d) ys"
    by (simp add: simple_hash_def)
  then have "?f ?h c * 31 ^ length ys = ?f ?h d * 31 ^ length ys"
    using hash_fold_affine [of "?f ?h c" ys] hash_fold_affine [of "?f ?h d" ys] by simp
  then have "(?f ?h c - ?f ?h d) * 31 ^ length ys = 0"
    by (simp add: algebra_simps)
  then have "?f ?h c - ?f ?h d = 0" by (rule mult_31_power_cancel)
  then have "(of_nat (code c) :: 32 word) = of_nat (code d)" by simp
  then show False using assms word_of_code_inj by blast
qed

lemma fallback_checksum_one_unit:
  assumes "S r = xs @ c # ys" and "S r' = xs @ d # ys" and "c \<noteq> d"
  shows "calculateChecksum S None r' \<noteq> calculateChecksum S None r"
proof
  assume "calculateChecksum S None r' = calculateChecksum S None r"
  then have "int_toString16 (sint (simple_hash (xs @ d # ys)))
      = int_toString16 (sint (simple_hash (xs @ c # ys)))"
    by (simp add: calculateChecksum_def assms(1,2))
  then have "sint (simple_hash (xs @ d # ys)) = sint (simple_hash (xs @ c # ys))"
    by (rule int_toString16_inj)
  then have "simple_hash (xs @ d # ys) = simple_hash (xs @ c # ys)"
    by (rule signed_word_eqI)
  then show False using simple_hash_one_unit [OF assms(3), of xs ys] by simp
qed

subsection \<open>The behaviour of verifySettings\<close>

text \<open>
  Claim C5, as stated: an object that lacks both \<^verbatim>\<open>version\<close> and \<^verbatim>\<open>checksum\<close> is
  passed through, and any other object gives its data when the checksum matches and
  \<^verbatim>\<open>null\<close> otherwise, in particular when any byte of the data was mutated after
  signing. The code differs in two ways. It tests the two fields for truthiness, not
  for presence: an envelope that has both fields, empty, is returned unchanged,
  whatever the serializer and the digest are; the result is neither \<^verbatim>\<open>null\<close> nor the
  data. And it accepts mutated data whose checksum is the one stored. Without
  \<^verbatim>\<open>crypto.subtle\<close> the checksum is a 32-bit sum that the source itself calls not
  secure: the texts of \<^verbatim>\<open>{color1: "#00ffAa"}\<close> and \<^verbatim>\<open>{color1: "#00ffBB"}\<close> differ and
  have the same sum, so the envelope signed for the first returns the second. With
  any digest, \<^verbatim>\<open>JSON.stringify\<close> leaves out a property whose value is
  \<^verbatim>\<open>undefined\<close>, so data with such a property added has the text and the checksum
  of the signed data and is returned.
\<close>

theorem verifySettings_counterexample:
  "(\<forall>S H. verifySettings S H blank_envelope = Inr blank_envelope)
   \<and> map fst (own_props blank_envelope) = [''version'', ''checksum'', ''data'']
   \<and> blank_envelope \<noteq> JNull
   \<and> blank_envelope \<noteq> get_prop blank_envelope ''data''
   \<and> (\<forall>N. verifySettings (stringify N) None
              (replace_data (signSettings (stringify N) None signed_data) tampered_data)
            = Inr tampered_data)
   \<and> (\<forall>N. stringify N tampered_data \<noteq> stringify N signed_data)
   \<and> (\<forall>N H. verifySettings (stringify N) H
              (replace_data (signSettings (stringify N) H plain_data) padded_data)
            = Inr padded_data)
   \<and> padded_data \<noteq> plain_data"
proof -
  have a: "verifySettings S H blank_envelope = Inr blank_envelope" for S H
    by (simp add: verifySettings_def blank_envelope_def js_not_def)
  have b: "map fst (own_props blank_envelope) = [''version'', ''checksum'', ''data'']"
    "blank_envelope \<noteq> JNull" "blank_envelope \<noteq> get_prop blank_envelope ''data''"
    by (simp_all add: blank_envelope_def)
  have c: "verifySettings (stringify N) None
              (replace_data (signSettings (stringify N) None signed_data) tampered_data)
            = Inr tampered_data" for N
  proof -
    have "truthy tampered_data" by (simp add: tampered_data_def)
    then show ?thesis
      by (simp add: verifySettings_replace_data fallback_checksum_collision)
  qed
  have d: "stringify N tampered_data \<noteq> stringify N signed_data" for N
    by (simp add: stringify_signed_data)
  have e: "verifySettings (stringify N) H
              (replace_data (signSettings (stringify N) H plain_data) padded_data)
            = Inr padded_data" for N H
  proof -
    have "truthy padded_data" by (simp add: padded_data_def)
    then show ?thesis
      by (simp add: verifySettings_replace_data calculateChecksum_def stringify_padded_data)
  qed
  have f: "padded_data \<noteq> plain_data"
    by (simp add: padded_data_def plain_data_def)
  show ?thesis using a b c d e f by simp
qed

text \<open>
  Claim C5, amended: \<^verbatim>\<open>verifySettings\<close> never throws. A value that is not an object
  gives \<^verbatim>\<open>null\<close>. An object whose \<^verbatim>\<open>version\<close> and \<^verbatim>\<open>checksum\<close> are both absent
  or falsy is returned unchanged. Any other object gives its \<^verbatim>\<open>data\<close> when the data
  is truthy and \<^verbatim>\<open>checksum\<close> is the string that \<^verbatim>\<open>calculateChecksum(data)\<close> returns,
  and \<^verbatim>\<open>null\<close> in every other case. So \<^verbatim>\<open>verifySettings(signSettings(r))\<close> is \<open>r\<close>
  for a truthy \<open>r\<close>; an envelope whose stored checksum differs from the checksum of
  its data gives \<^verbatim>\<open>null\<close>; and a signed envelope whose data was replaced by \<open>r'\<close>
  gives \<open>r'\<close> when \<open>r'\<close> is truthy and has the checksum of the signed data, and
  \<^verbatim>\<open>null\<close> otherwise. With the fallback checksum, data whose text differs from the
  text of the signed data in exactly one code unit gives \<^verbatim>\<open>null\<close>.
\<close>

theorem verifySettings_behaviour:
  "(\<exists>r. verifySettings S H v = Inr r)
   \<and> (js_not v \<or> typeof v \<noteq> ''object'' \<longrightarrow> verifySettings S H v = Inr JNull)
   \<and> (truthy v \<and> typeof v = ''object''
        \<and> js_not (get_prop v ''version'') \<and> js_not (get_prop v ''checksum'')
        \<longrightarrow> verifySettings S H v = Inr v)
   \<and> (truthy v \<and> typeof v = ''object''
        \<and> (truthy (get_prop v ''version'') \<or> truthy (get_prop v ''checksum''))
        \<longrightarrow> verifySettings S H v =
             (if truthy (get_prop v ''data'')
                 \<and> get_prop v ''checksum'' = JStr (calculateChecksum S H (get_prop v ''data''))
              then Inr (get_prop v ''data'') else Inr JNull))
   \<and> (truthy r \<longrightarrow> verifySettings S H (signSettings S H r) = Inr r)
   \<and> (truthy r \<and> c \<noteq> calculateChecksum S H r
        \<longrightarrow> verifySettings S H
              (JObj ObjectProto [(''version'', JStr ''1.0''), (''checksum'', JStr c), (''data'', r)])
            = Inr JNull)
   \<and> verifySettings S H (replace_data (signSettings S H r) r') =
        (if truthy r' \<and> calculateChecksum S H r' = calculateChecksum S H r then Inr r'
         else Inr JNull)
   \<and> (S r = xs @ a # ys \<and> S r' = xs @ b # ys \<and> a \<noteq> b
        \<longrightarrow> verifySettings S None (replace_data (signSettings S None r) r') = Inr JNull)"
proof -
  have "verifySettings S None (replace_data (signSettings S None r) r') = Inr JNull"
    if "S r = xs @ a # ys" and "S r' = xs @ b # ys" and "a \<noteq> b"
    using fallback_checksum_one_unit [OF that] by (simp add: verifySettings_replace_data)
  moreover have "(\<exists>r. verifySettings S H v = Inr r)
   \<and> (js_not v \<or> typeof v \<noteq> ''object'' \<longrightarrow> verifySettings S H v = Inr JNull)
   \<and> (truthy v \<and> typeof v = ''object''
        \<and> js_not (get_prop v ''version'') \<and> js_not (get_prop v ''checksum'')
        \<longrightarrow> verifySettings S H v = Inr v)
   \<and> (truthy v \<and> typeof v = ''object''
        \<and> (truthy (get_prop v ''version'') \<or> truthy (get_prop v ''checksum''))
        \<longrightarrow> verifySettings S H v =
             (if truthy (get_prop v ''data'')
                 \<and> get_prop v ''checksum'' = JStr (calculateChecksum S H (get_prop v ''data''))
              then Inr (get_prop v ''data'') else Inr JNull))
   \<and> (truthy r \<longrightarrow> verifySettings S H (signSettings S H r) = Inr r)
   \<and> (truthy r \<and> c \<noteq> calculateChecksum S H r
        \<longrightarrow> verifySettings S H
              (JObj ObjectProto [(''version'', JStr ''1.0''), (''checksum'', JStr c), (''data'', r)])
            = Inr JNull)"
    by (auto simp: verifySettings_def signSettings_def js_not_def Let_def)
  ultimately show ?thesis
    by (simp only: verifySettings_replace_data) blast
qed

theorem verifySettings_behaviour_witness:
  "(\<forall>S H. verifySettings S H (signSettings S H override_record) = Inr override_record)
   \<and> (\<forall>S H. verifySettings S H (JNum (Fin 5)) = Inr JNull)
   \<and> (\<forall>S H. verifySettings S H override_record = Inr override_record)
   \<and> (\<forall>S H. verifySettings S H
          (JObj ObjectProto [(''version'', JStr ''1.0''),
             (''checksum'', JStr (CHR ''x'' # calculateChecksum S H override_record)),
             (''data'', override_record)]) = Inr JNull)
   \<and> (\<forall>N. verifySettings (stringify N) None
          (replace_data (signSettings (stringify N) None plain_data) one_unit_data) = Inr JNull)"
proof -
  have t: "truthy override_record" "typeof override_record = ''object''"
    "js_not (get_prop override_record ''version'')"
    "js_not (get_prop override_record ''checksum'')"
    by (simp_all add: override_record_def js_not_def)
  have n: "typeof (JNum (Fin 5)) \<noteq> ''object''" by simp
  have u: "stringify N plain_data
      = (CHR ''{'' # QuoteJSONString ''color1'' @ CHR '':'' # char_of (34 :: nat) # ''#00fff'')
        @ CHR ''f'' # [char_of (34 :: nat), CHR ''}'']"
    "stringify N one_unit_data
      = (CHR ''{'' # QuoteJSONString ''color1'' @ CHR '':'' # char_of (34 :: nat) # ''#00fff'')
        @ CHR ''0'' # [char_of (34 :: nat), CHR ''}'']"
    "CHR ''f'' \<noteq> CHR ''0''" for N
    by (simp_all add: stringify_def plain_data_def one_unit_data_def QuoteJSONString_def
        json_escape_def code_def)
  show ?thesis
    using t n
      verifySettings_behaviour [where r = override_record and v = override_record]
      verifySettings_behaviour [where v = "JNum (Fin 5)"]
      verifySettings_behaviour [where r = override_record and v = override_record
        and c = "CHR ''x'' # calculateChecksum S H override_record" for S H]
      verifySettings_behaviour [where S = "stringify N" and r = plain_data
        and r' = one_unit_data and a = "CHR ''f''" and b = "CHR ''0''"
        and xs = "CHR ''{'' # QuoteJSONString ''color1'' @ CHR '':'' # char_of (34 :: nat) # ''#00fff''"
        and ys = "[char_of (34 :: nat), CHR ''}'']" for N]
      u
    by simp
qed

section \<open>What the loop over the overrides keeps\<close>

lemma sanitizeDomain_Some:
  assumes "sanitizeDomain v = Some d"
  shows "d \<noteq> [] \<and> length d \<le> 253 \<and> domainRegex d"
  using assms by (auto simp: sanitizeDomain_def Let_def split: jsval.splits if_splits)

lemma domainRegex_forbidden:
  "\<not> domainRegex ''__proto__''" "\<not> domainRegex ''constructor''" "\<not> domainRegex ''prototype''"
  "\<not> domainRegex ''hasOwnProperty''"
  by (simp_all add: domainRegex_def ascii_lower_def is_label_char_def string_defs)

lemma sanitizeDomain_not_forbidden:
  assumes "sanitizeDomain v = Some d"
  shows "\<not> forbidden_key d" "d \<noteq> ''hasOwnProperty''"
  using sanitizeDomain_Some [OF assms] domainRegex_forbidden
  by (auto simp: forbidden_key_def)

lemma set_update_subset: "set (AList.update k v al) \<subseteq> insert (k, v) (set al)"
  by (induction al) auto


lemma overrides_loop_entries:
  assumes "overrides_loop parsed props safe = Inr out" and "(d, e) \<in> set out"
  shows "(d, e) \<in> set safe
     \<or> (\<exists>key ds fs. (key, ds) \<in> set props \<and> sanitizeDomain (JStr key) = Some d
           \<and> override_fields ds = Inr fs \<and> e = JObj NullProto fs)"
  using assms
proof (induction props arbitrary: safe)
  case Nil
  then show ?case by simp
next
  case (Cons p props)
  obtain key ds where p: "p = (key, ds)" by (cases p)
  show ?case
  proof (cases "\<exists>dom fs. hasOwnProperty parsed key = Inr True \<and> \<not> forbidden_key key
        \<and> sanitizeDomain (JStr key) = Some dom \<and> dom \<noteq> []
        \<and> typeof ds = ''object'' \<and> ds \<noteq> JNull \<and> override_fields ds = Inr fs")
    case True
    then obtain dom fs where k: "hasOwnProperty parsed key = Inr True" "\<not> forbidden_key key"
      "sanitizeDomain (JStr key) = Some dom" "dom \<noteq> []" "typeof ds = ''object''" "ds \<noteq> JNull"
      "override_fields ds = Inr fs"
      by blast
    then have "overrides_loop parsed props (AList.update dom (JObj NullProto fs) safe) = Inr out"
      using Cons.prems(1) by (simp add: p)
    from Cons.IH [OF this Cons.prems(2)]
    show ?thesis
    proof
      assume "(d, e) \<in> set (AList.update dom (JObj NullProto fs) safe)"
      then have "(d, e) = (dom, JObj NullProto fs) \<or> (d, e) \<in> set safe"
        using set_update_subset [of dom "JObj NullProto fs" safe] by auto
      then show ?thesis using k p by auto
    next
      assume "\<exists>key ds fs. (key, ds) \<in> set props \<and> sanitizeDomain (JStr key) = Some d
           \<and> override_fields ds = Inr fs \<and> e = JObj NullProto fs"
      then show ?thesis by auto
    qed
  next
    case False
    then have "overrides_loop parsed props safe = Inr out"
      using Cons.prems(1)
      by (auto simp: p split: sum.splits if_splits option.splits)
    from Cons.IH [OF this Cons.prems(2)] show ?thesis by auto
  qed
qed

lemma sanitizePerSiteOverrides_entries:
  assumes "sanitizePerSiteOverrides P v = Inr m"
  shows "\<exists>entries. m = JObj NullProto entries
           \<and> (\<forall>d e. (d, e) \<in> set entries \<longrightarrow> entry_origin P v d e)"
proof (cases "parse_overrides P v")
  case None
  then have "m = JObj NullProto []" using assms by (simp add: sanitizePerSiteOverrides_def)
  then show ?thesis by simp
next
  case (Some parsed)
  then obtain safe where safe: "overrides_loop parsed (own_props parsed) [] = Inr safe"
    and m: "m = JObj NullProto (if 100 < length safe then take 100 safe else safe)"
    using assms by (auto simp: sanitizePerSiteOverrides_def split: sum.splits if_splits)
  have "entry_origin P v d e"
    if "(d, e) \<in> set (if 100 < length safe then take 100 safe else safe)" for d e
  proof -
    from that have "(d, e) \<in> set safe"
      by (auto split: if_splits dest: in_set_takeD)
    from overrides_loop_entries [OF safe this] Some
    show ?thesis by (auto simp: entry_origin_def)
  qed
  then show ?thesis using m by blast
qed

lemma overrides_loop_forbidden_only:
  assumes "\<forall>k \<in> set (map fst props). forbidden_key k"
    and "''hasOwnProperty'' \<notin> set (map fst kvs)"
  shows "overrides_loop (JObj ObjectProto kvs) props safe = Inr safe"
  using assms by (induction props arbitrary: safe) (auto split: sum.splits)

section \<open>The prototype-pollution guard\<close>

lemma sanitize_polluted_overrides:
  "sanitizePerSiteOverrides P polluted_overrides
   = Inr (JObj NullProto [(''example.com'', JObj NullProto [(''fontSize'', JNum (Fin 18))])])"
  by (simp add: sanitizePerSiteOverrides_def parse_overrides_def polluted_overrides_def
      sanitizeDomain_example forbidden_key_def override_fields_def color_field_def
      flag_field_def number_field_def mode_field_def sanitizeFontSize_def
      sanitizeNumericRange_def)

text \<open>
  Claim C7: whatever the input is, object or JSON text, a map that
  \<^verbatim>\<open>sanitizePerSiteOverrides\<close> returns has no entry for \<^verbatim>\<open>__proto__\<close>,
  \<^verbatim>\<open>constructor\<close> or \<^verbatim>\<open>prototype\<close>, and the map and every override in it are
  objects without prototype. On an ordinary object whose keys are all of these three
  the function returns the empty map.
\<close>

theorem prototype_pollution_guard:
  "(sanitizePerSiteOverrides P v = Inr m \<longrightarrow>
      (\<exists>entries. m = JObj NullProto entries
         \<and> (\<forall>(k, e) \<in> set entries. \<not> forbidden_key k \<and> (\<exists>fs. e = JObj NullProto fs))))
   \<and> ((\<forall>k \<in> set (map fst kvs). forbidden_key k) \<longrightarrow>
        sanitizePerSiteOverrides P (JObj ObjectProto kvs) = Inr (JObj NullProto []))"
proof (intro conjI impI)
  assume "sanitizePerSiteOverrides P v = Inr m"
  then obtain entries where m: "m = JObj NullProto entries"
    and e: "\<forall>d e. (d, e) \<in> set entries \<longrightarrow> entry_origin P v d e"
    using sanitizePerSiteOverrides_entries by blast
  have "\<forall>(k, e) \<in> set entries. \<not> forbidden_key k \<and> (\<exists>fs. e = JObj NullProto fs)"
    using e sanitizeDomain_not_forbidden(1) by (fastforce simp: entry_origin_def)
  then show "\<exists>entries. m = JObj NullProto entries
         \<and> (\<forall>(k, e) \<in> set entries. \<not> forbidden_key k \<and> (\<exists>fs. e = JObj NullProto fs))"
    using m by blast
next
  assume f: "\<forall>k \<in> set (map fst kvs). forbidden_key k"
  then have "''hasOwnProperty'' \<notin> set (map fst kvs)"
    by (auto simp: forbidden_key_def)
  from overrides_loop_forbidden_only [OF f this, of "[]"]
  show "sanitizePerSiteOverrides P (JObj ObjectProto kvs) = Inr (JObj NullProto [])"
    by (simp add: sanitizePerSiteOverrides_def parse_overrides_def)
qed

theorem prototype_pollution_guard_witness:
  "\<forall>P. sanitizePerSiteOverrides P polluted_overrides
         = Inr (JObj NullProto [(''example.com'', JObj NullProto [(''fontSize'', JNum (Fin 18))])])
       \<and> sanitizePerSiteOverrides P
           (JObj ObjectProto [(''__proto__'', JObj ObjectProto [(''polluted'', JBool True)])])
         = Inr (JObj NullProto [])"
proof
  fix P
  show "sanitizePerSiteOverrides P polluted_overrides
         = Inr (JObj NullProto [(''example.com'', JObj NullProto [(''fontSize'', JNum (Fin 18))])])
       \<and> sanitizePerSiteOverrides P
           (JObj ObjectProto [(''__proto__'', JObj ObjectProto [(''polluted'', JBool True)])])
         = Inr (JObj NullProto [])"
    using prototype_pollution_guard [where P = P and v = polluted_overrides
        and m = "JObj NullProto [(''example.com'', JObj NullProto [(''fontSize'', JNum (Fin 18))])]"
        and kvs = "[(''__proto__'', JObj ObjectProto [(''polluted'', JBool True)])]"]
      sanitize_polluted_overrides [of P]
    by (simp add: forbidden_key_def)
qed

section \<open>The cap of 100 overrides\<close>

subsection \<open>The loop on valid entries\<close>





subsection \<open>The maps of the examples\<close>



























subsection \<open>The cap\<close>




section \<open>Falsy sub-fields of an override\<close>

lemma collect_Cons_Inr:
  "collect (x # xs) = Inr ys \<Longrightarrow> \<exists>a b. x = Inr a \<and> collect xs = Inr b \<and> ys = a @ b"
  by (auto split: sum.splits)

lemma color_field_keys:
  "color_field ds n fb = Inr zs \<Longrightarrow> set (map fst zs) = {k. k = n \<and> truthy (get_prop ds n)}"
  by (auto simp: color_field_def split: if_splits)

lemma flag_field_keys:
  "flag_field ds n = Inr zs \<Longrightarrow> set (map fst zs) = {k. k = n \<and> get_prop ds n \<noteq> JUndefined}"
  by (auto simp: flag_field_def split: if_splits)

lemma number_field_keys:
  "number_field ds n f = Inr zs \<Longrightarrow> set (map fst zs) = {k. k = n \<and> truthy (get_prop ds n)}"
  by (auto simp: number_field_def split: if_splits sum.splits)

lemma mode_field_keys:
  "mode_field ds = Inr zs \<Longrightarrow>
     set (map fst zs) = {k. k = ''colorBlindMode'' \<and> truthy (get_prop ds ''colorBlindMode'')}"
  by (auto simp: mode_field_def split: if_splits)

lemma override_fields_keys:
  assumes "override_fields ds = Inr fs"
  shows "set (map fst fs) =
     {n. (n \<in> set truthy_fields \<and> truthy (get_prop ds n))
         \<or> (n \<in> set flag_fields \<and> get_prop ds n \<noteq> JUndefined)}"
proof -
  from assms obtain z1 z2 z3 z4 z5 z6 z7 z8 z9 z10 z11 where
    z: "color_field ds ''color1'' ''#00ffff'' = Inr z1"
       "color_field ds ''color2'' ''#00ff00'' = Inr z2"
       "color_field ds ''color3'' ''#ff00ff'' = Inr z3"
       "color_field ds ''color4'' ''#ff0000'' = Inr z4"
       "flag_field ds ''textShadow'' = Inr z5"
       "flag_field ds ''highContrast'' = Inr z6"
       "flag_field ds ''focusOutline'' = Inr z7"
       "flag_field ds ''reducedMotion'' = Inr z8"
       "number_field ds ''fontSize'' sanitizeFontSize = Inr z9"
       "number_field ds ''lineHeight'' sanitizeLineHeight = Inr z10"
       "mode_field ds = Inr z11"
    and fs: "fs = z1 @ z2 @ z3 @ z4 @ z5 @ z6 @ z7 @ z8 @ z9 @ z10 @ z11"
    unfolding override_fields_def
    by (auto dest!: collect_Cons_Inr simp del: collect.simps(2))
  have "set (map fst fs) = set (map fst z1) \<union> set (map fst z2) \<union> set (map fst z3)
      \<union> set (map fst z4) \<union> set (map fst z5) \<union> set (map fst z6) \<union> set (map fst z7)
      \<union> set (map fst z8) \<union> set (map fst z9) \<union> set (map fst z10) \<union> set (map fst z11)"
    unfolding fs by (simp only: map_append set_append Un_assoc)
  also have "\<dots> = {n. (n \<in> set truthy_fields \<and> truthy (get_prop ds n))
         \<or> (n \<in> set flag_fields \<and> get_prop ds n \<noteq> JUndefined)}"
    unfolding color_field_keys [OF z(1)] color_field_keys [OF z(2)] color_field_keys [OF z(3)]
      color_field_keys [OF z(4)] flag_field_keys [OF z(5)] flag_field_keys [OF z(6)]
      flag_field_keys [OF z(7)] flag_field_keys [OF z(8)] number_field_keys [OF z(9)]
      number_field_keys [OF z(10)] mode_field_keys [OF z(11)]
    by (auto simp: truthy_fields_def flag_fields_def)
  finally show ?thesis .
qed

lemma sanitize_falsy_override:
  "sanitizePerSiteOverrides P falsy_override
   = Inr (JObj NullProto
            [(''example.com'',
              JObj NullProto [(''textShadow'', JBool False), (''lineHeight'', JNum (Fin 2))])])"
  by (simp add: sanitizePerSiteOverrides_def parse_overrides_def falsy_override_def
      sanitizeDomain_example forbidden_key_def override_fields_def color_field_def
      flag_field_def number_field_def mode_field_def sanitizeLineHeight_def
      sanitizeNumericRange_def number_literal_2_2)

text \<open>
  Claim C10: every entry of the sanitized map comes from an own property of the parsed
  input, and it holds a color, \<^verbatim>\<open>fontSize\<close>, \<^verbatim>\<open>lineHeight\<close> or \<^verbatim>\<open>colorBlindMode\<close>
  exactly when the input value of that field is truthy, and one of the four flags
  exactly when its input value is not \<^verbatim>\<open>undefined\<close>. A falsy value is left out; no
  fallback takes its place.
\<close>

theorem override_fields_kept_when_truthy:
  assumes "sanitizePerSiteOverrides P v = Inr (JObj pr entries)" and "(d, e) \<in> set entries"
  shows "\<exists>parsed key ds fs.
           parse_overrides P v = Some parsed \<and> (key, ds) \<in> set (own_props parsed)
         \<and> sanitizeDomain (JStr key) = Some d \<and> e = JObj NullProto fs
         \<and> (\<forall>name \<in> set truthy_fields. (name \<in> set (map fst fs)) = truthy (get_prop ds name))
         \<and> (\<forall>name \<in> set flag_fields.
               (name \<in> set (map fst fs)) = (get_prop ds name \<noteq> JUndefined))"
proof -
  from sanitizePerSiteOverrides_entries [OF assms(1)] assms(2)
  have "entry_origin P v d e" by auto
  then obtain parsed key ds fs where o: "parse_overrides P v = Some parsed"
    "(key, ds) \<in> set (own_props parsed)" "sanitizeDomain (JStr key) = Some d"
    "override_fields ds = Inr fs" "e = JObj NullProto fs"
    by (auto simp: entry_origin_def)
  have "\<forall>name \<in> set truthy_fields. (name \<in> set (map fst fs)) = truthy (get_prop ds name)"
    unfolding override_fields_keys [OF o(4)] by (auto simp: truthy_fields_def flag_fields_def)
  moreover have "\<forall>name \<in> set flag_fields.
               (name \<in> set (map fst fs)) = (get_prop ds name \<noteq> JUndefined)"
    unfolding override_fields_keys [OF o(4)] by (auto simp: truthy_fields_def flag_fields_def)
  ultimately show ?thesis using o by blast
qed

theorem override_fields_kept_when_truthy_witness:
  "\<forall>P. sanitizePerSiteOverrides P falsy_override
         = Inr (JObj NullProto
                  [(''example.com'',
                    JObj NullProto [(''textShadow'', JBool False), (''lineHeight'', JNum (Fin 2))])])
       \<and> (\<exists>parsed key ds fs.
             parse_overrides P falsy_override = Some parsed \<and> (key, ds) \<in> set (own_props parsed)
           \<and> sanitizeDomain (JStr key) = Some ''example.com''
           \<and> JObj NullProto [(''textShadow'', JBool False), (''lineHeight'', JNum (Fin 2))]
               = JObj NullProto fs
           \<and> (\<forall>name \<in> set truthy_fields.
                 (name \<in> set (map fst fs)) = truthy (get_prop ds name))
           \<and> (\<forall>name \<in> set flag_fields.
                 (name \<in> set (map fst fs)) = (get_prop ds name \<noteq> JUndefined)))"
proof
  fix P
  have m: "(''example.com'',
            JObj NullProto [(''textShadow'', JBool False), (''lineHeight'', JNum (Fin 2))])
      \<in> set [(''example.com'',
              JObj NullProto [(''textShadow'', JBool False), (''lineHeight'', JNum (Fin 2))])]"
    by simp
  from override_fields_kept_when_truthy [OF sanitize_falsy_override m, of P]
    sanitize_falsy_override [of P]
  show "sanitizePerSiteOverrides P falsy_override
         = Inr (JObj NullProto
                  [(''example.com'',
                    JObj NullProto [(''textShadow'', JBool False), (''lineHeight'', JNum (Fin 2))])])
       \<and> (\<exists>parsed key ds fs.
             parse_overrides P falsy_override = Some parsed \<and> (key, ds) \<in> set (own_props parsed)
           \<and> sanitizeDomain (JStr key) = Some ''example.com''
           \<and> JObj NullProto [(''textShadow'', JBool False), (''lineHeight'', JNum (Fin 2))]
               = JObj NullProto fs
           \<and> (\<forall>name \<in> set truthy_fields.
                 (name \<in> set (map fst fs)) = truthy (get_prop ds name))
           \<and> (\<forall>name \<in> set flag_fields.
                 (name \<in> set (map fst fs)) = (get_prop ds name \<noteq> JUndefined)))"
    by simp
qed

section \<open>Injecting the main stylesheet twice\<close>

lemma is_main_style_main_style: "is_main_style main_style"
  by (simp add: is_main_style_def main_style_def)

lemma count_remove_first:
  "length (filter P (remove_first P xs)) = length (filter P xs) - 1"
  by (induction xs) auto

lemma list_ex_count: "list_ex P xs = (length (filter P xs) \<noteq> 0)"
  by (induction xs) auto

lemma count_inject_main:
  "length (filter is_main_style (inject_main els))
     = (if length (filter is_main_style els) \<le> 1 then 1
        else length (filter is_main_style els) - 1)"
proof -
  let ?k = "length (filter is_main_style els)"
  let ?rest = "remove_first is_main_style els"
  have r: "length (filter is_main_style ?rest) = ?k - 1"
    by (rule count_remove_first)
  show ?thesis
  proof (cases "?k \<le> 1")
    case True
    then have "length (filter is_main_style ?rest) = 0" using r by arith
    then have "\<not> list_ex is_main_style ?rest" by (simp add: list_ex_count)
    then have "inject_main els = ?rest @ [main_style]" by (simp add: inject_main_def)
    then show ?thesis
      using True \<open>length (filter is_main_style ?rest) = 0\<close>
      by (simp add: is_main_style_main_style)
  next
    case False
    then have "length (filter is_main_style ?rest) \<noteq> 0" using r by arith
    then have "list_ex is_main_style ?rest" by (simp add: list_ex_count)
    then have "inject_main els = ?rest" by (simp add: inject_main_def)
    then show ?thesis using False r by simp
  qed
qed

lemma inject_twice_count:
  assumes "length (filter is_main_style els) \<le> 3"
  shows "length (filter is_main_style (inject_main (inject_main els))) = 1"
proof -
  have "length (filter is_main_style (inject_main els)) \<le> 2
      \<and> 1 \<le> length (filter is_main_style (inject_main els))"
    using assms by (simp only: count_inject_main split: if_splits) arith
  then show ?thesis
    by (simp only: count_inject_main [of "inject_main els"] split: if_splits) arith
qed

lemma palette_ok_DEFAULT_SETTINGS: "\<not> palette_throws DEFAULT_SETTINGS"
  by (simp add: palette_throws_def DEFAULT_SETTINGS_def)

text \<open>
  Claim C9, as stated: in every document state, two calls of
  \<^verbatim>\<open>applyCyberdarkStyles\<close> in a row leave exactly one main stylesheet. Without a root
  element the function returns before it injects anything and leaves none; and each
  call removes only the first main stylesheet it finds, so of four that a document
  already holds two are left.
\<close>

theorem applyCyberdarkStyles_twice_counterexample:
  "count_main (applyCyberdarkStyles DEFAULT_SETTINGS (applyCyberdarkStyles DEFAULT_SETTINGS NoRoot)) = 0
   \<and> count_main
        (applyCyberdarkStyles DEFAULT_SETTINGS (applyCyberdarkStyles DEFAULT_SETTINGS four_main_styles))
       = 2"
  by (simp add: applyCyberdarkStyles_def palette_ok_DEFAULT_SETTINGS count_main_def
      four_main_styles_def inject_main_def is_main_style_main_style)

text \<open>
  Claim C9, amended: when the document has a head or a root element, holds at most
  three main stylesheets below that injection target and none elsewhere, and the
  settings do not make the palette computation throw, two calls in a row leave exactly
  one main stylesheet in the document.
\<close>

theorem applyCyberdarkStyles_twice:
  assumes "\<not> palette_throws settings" and "doc \<noteq> NoRoot"
    and "count_in_target doc \<le> 3" and "count_outside_target doc = 0"
  shows "count_main (applyCyberdarkStyles settings (applyCyberdarkStyles settings doc)) = 1"
proof (cases doc)
  case NoRoot
  with assms(2) show ?thesis by simp
next
  case (RootOnly els)
  then have "length (filter is_main_style els) \<le> 3"
    using assms(3) by (simp add: count_in_target_def)
  then show ?thesis
    using assms(1) RootOnly
    by (simp add: applyCyberdarkStyles_def count_main_def inject_twice_count)
next
  case (WithHead head_els others)
  then have "length (filter is_main_style head_els) \<le> 3"
    and "length (filter is_main_style others) = 0"
    using assms(3,4) by (simp_all add: count_in_target_def count_outside_target_def)
  then show ?thesis
    using assms(1) WithHead
    by (simp add: applyCyberdarkStyles_def count_main_def inject_twice_count)
qed

theorem applyCyberdarkStyles_twice_witness:
  "count_main
     (applyCyberdarkStyles DEFAULT_SETTINGS
        (applyCyberdarkStyles DEFAULT_SETTINGS
           (WithHead [\<lparr>tag = ''title'', attrs = []\<rparr>, main_style] [\<lparr>tag = ''body'', attrs = []\<rparr>])))
   = 1"
  using applyCyberdarkStyles_twice [where settings = DEFAULT_SETTINGS
      and doc = "WithHead [\<lparr>tag = ''title'', attrs = []\<rparr>, main_style] [\<lparr>tag = ''body'', attrs = []\<rparr>]"]
  by (simp add: palette_ok_DEFAULT_SETTINGS count_in_target_def count_outside_target_def
      is_main_style_def main_style_def)

end
